theory Spec2Isabelle
  imports Complex_Main "HOL-Library.Sublist"
begin

section \<open>AutoModel: graph assembly and the multi-IO data pipeline\<close>

text \<open>
  A shallow embedding of \<^verbatim>\<open>autokeras/auto_model.py\<close>. Python exceptions are values of
  \<open>error\<close>; a method that has effects takes the list of calls made so far on the
  external collaborators (random generators, blocks, tuner, adapters, stdout) and returns
  it extended, next to its result. A method that assigns attributes of \<open>self\<close> also
  returns the updated object.
\<close>

subsection \<open>Exceptions\<close>

text \<open>
  \<open>ValueError\<close> carries the message the source formats. The other constructors are the
  exceptions the Python interpreter raises by itself: a local read before assignment, a
  list index out of range, a missing attribute or a call of a non-callable, a failed
  tuple unpacking or a call with the wrong number of arguments, and an operator of the
  tensor library refusing its arguments.
\<close>

datatype error =
    ValueError string
  | UnboundLocalError string
  | IndexError
  | AttributeError string
  | TypeError string
  | UnpackError
  | OpError string

subsection \<open>Nested structures\<close>

text \<open>
  \<^verbatim>\<open>nest.flatten\<close> walks lists and tuples and returns the leaves in order; a value that is
  not a sequence is a single leaf.
\<close>

datatype 'a nest = Leaf 'a | Tuple "'a nest list"

fun flatten :: "'a nest \<Rightarrow> 'a list" where
  "flatten (Leaf a) = [a]"
| "flatten (Tuple xs) = concat (map flatten xs)"

fun is_Tuple :: "'a nest \<Rightarrow> bool" where
  "is_Tuple (Tuple xs) = True"
| "is_Tuple (Leaf a) = False"

text \<open>
  Modelled from the spec: \<^verbatim>\<open>data_utils.dataset_shape\<close> and the tensor library are not
  part of the source file; the spec counts the "top-level" elements of a dataset's element
  structure, and a dataset whose element is one tensor has one top-level element.
  \<open>top_level\<close> gives the positional arguments a structure unpacks to (\<^verbatim>\<open>len\<close>,
  iteration, \<^verbatim>\<open>a, b = v\<close>, \<^verbatim>\<open>lambda *a\<close>): the components of a tuple.
\<close>

fun top_level :: "'a nest \<Rightarrow> 'a nest list" where
  "top_level (Tuple xs) = xs"
| "top_level (Leaf a) = [Leaf a]"

fun map_err :: "('a \<Rightarrow> error + 'b) \<Rightarrow> 'a list \<Rightarrow> error + 'b list" where
  "map_err f [] = Inr []"
| "map_err f (x # xs) =
     (case f x of
        Inl e \<Rightarrow> Inl e
      | Inr y \<Rightarrow> (case map_err f xs of Inl e \<Rightarrow> Inl e | Inr ys \<Rightarrow> Inr (y # ys)))"

subsection \<open>Datasets and user data\<close>

type_synonym shape = "nat list"
type_synonym tensor = nat

text \<open>
  Modelled from the spec: \<^verbatim>\<open>tf.data.Dataset\<close> is "an ordered, batchable,
  shape-introspectable sequence of tensors". \<open>spec\<close> is the structure of shapes of one
  element, \<open>rows\<close> the elements in order.
\<close>

record dataset =
  spec :: "shape nest"
  rows :: "tensor nest list"

text \<open>
  A leaf of the data a caller passes: \<^verbatim>\<open>None\<close>, an array (the list of its examples
  along the first axis) or a dataset.
\<close>

datatype leaf = PyNone | Array "tensor list" | Ds dataset

type_synonym pydata = "leaf nest"

text \<open>A dataset after \<^verbatim>\<open>.batch(batch_size)\<close>; the batches are never looked into.\<close>

datatype batched = Batch dataset nat

subsection \<open>Adapters, heads, blocks and nodes\<close>

text \<open>
  Modelled from the spec: adapters, heads, blocks and input nodes are defined in other
  modules. An adapter converts one raw source into one canonical dataset
  (\<^verbatim>\<open>fit_transform\<close>, \<^verbatim>\<open>transform\<close>); what it computes is a parameter here. An input
  node has one declared semantic kind out of a closed enumeration, so
  \<^verbatim>\<open>isinstance(input_node, input_module.K)\<close> holds for exactly the node's own kind. A
  block applied to nodes produces a new node whose \<^verbatim>\<open>in_blocks\<close> is that block.
\<close>

datatype adapter =
  Adapter (adapter_name: nat) (fit_transform: "leaf \<Rightarrow> dataset") (transform: "leaf \<Rightarrow> dataset")

datatype head = Head (head_name: nat) (head_adapter: adapter)

datatype input_class = Input | TextInput | ImageInput | StructuredDataInput | TimeseriesInput

datatype block =
    TextBlock | ImageBlock | StructuredDataBlock | TimeseriesBlock | Merge
  | HeadBlock head
  | Block nat

datatype node =
    InputNode input_class adapter
  | Node block "node list"

text \<open>A declared output is a Node or a bare Head.\<close>

datatype declared = ONode node | OHead head

fun is_Node :: "declared \<Rightarrow> bool" where
  "is_Node (ONode n) = True"
| "is_Node (OHead h) = False"

fun is_Head :: "declared \<Rightarrow> bool" where
  "is_Head (OHead h) = True"
| "is_Head (ONode n) = False"

fun the_node :: "declared \<Rightarrow> node list" where
  "the_node (ONode n) = [n]"
| "the_node (OHead h) = []"

fun isinstance :: "node \<Rightarrow> input_class \<Rightarrow> bool" where
  "isinstance (InputNode c a) k = (c = k)"
| "isinstance (Node b ns) k = False"

fun in_blocks :: "node \<Rightarrow> block list" where
  "in_blocks (InputNode c a) = []"
| "in_blocks (Node b ns) = [b]"

text \<open>\<^verbatim>\<open>input_node.get_adapter()\<close> and \<^verbatim>\<open>head.get_adapter()\<close>.\<close>

fun node_get_adapter :: "node \<Rightarrow> error + adapter" where
  "node_get_adapter (InputNode c a) = Inr a"
| "node_get_adapter (Node b ns) = Inl (AttributeError ''get_adapter'')"

fun block_get_adapter :: "block \<Rightarrow> error + adapter" where
  "block_get_adapter (HeadBlock h) = Inr (head_adapter h)"
| "block_get_adapter b = Inl (AttributeError ''get_adapter'')"

subsection \<open>The graph and the tuner\<close>

text \<open>
  Modelled from the spec: \<^verbatim>\<open>graph_module.Graph\<close> records the declared input nodes and
  output nodes as the graph's boundary. The graph module is not part of the source file. Its
  constructor also validates the wiring: by the spec it fails when the outputs are not
  reachable from the inputs, which only outputs wired by the user (functional mode) can be.
  That validation is not modelled, so \<open>Graph\<close> in functional mode stands for the
  construction from a wiring the graph module accepts.
\<close>

record graph =
  g_inputs :: "node list"
  g_outputs :: "node list"

definition Graph :: "node list \<Rightarrow> node list \<Rightarrow> graph" where
  "Graph ins outs = \<lparr>g_inputs = ins, g_outputs = outs\<rparr>"

datatype tuner_class = BayesianOptimization | RandomSearch | Hyperband | Greedy | AutoTuner nat

text \<open>The arguments the constructor hands to the tuner unchanged.\<close>

record options =
  preprocessors :: "nat list option"
  project_name :: string
  max_trials :: int
  directory :: "string option"
  objective :: string
  overwrite :: bool

record tuner_obj =
  tuner_cls :: tuner_class
  hypermodel :: graph
  tuner_options :: options
  tuner_seed :: "int option"

text \<open>The \<^verbatim>\<open>tuner\<close> argument: a string or a tuner class.\<close>

datatype tuner_arg = TunerName string | TunerClass tuner_class

subsection \<open>Calls on the collaborators\<close>

datatype event =
    NpRandomSeed int
  | TfRandomSetSeed int
  | BlockCall block "node list"
  | TunerNew tuner_class
  | FitTransform nat
  | ConfigFromAdapter nat
  | Transform nat
  | Print string
  | TunerSearch batched "int option" batched bool

subsection \<open>get_tuner_class\<close>

definition TUNER_CLASSES :: "(string \<times> tuner_class) list" where
  "TUNER_CLASSES =
     [(''bayesian'', BayesianOptimization),
      (''random'', RandomSearch),
      (''hyperband'', Hyperband),
      (''greedy'', Greedy)]"

definition dq :: string where
  "dq = [CHR 0x22]"

definition tuner_message :: "string \<Rightarrow> string" where
  "tuner_message t =
     ''The value '' @ t @ '' passed for argument tuner is invalid, ''
     @ ''expected one of '' @ dq @ ''greedy'' @ dq @ '', '' @ dq @ ''random'' @ dq @ '', ''
     @ dq @ ''hyperband'' @ dq @ '', ''
     @ dq @ ''bayesian'' @ dq @ ''.''"

text \<open>
  The one caller passes a string (\<^verbatim>\<open>isinstance(tuner, str)\<close> is checked before the
  call), so the argument is a string here.
\<close>

definition get_tuner_class :: "string \<Rightarrow> error + tuner_class" where
  "get_tuner_class t =
     (case map_of TUNER_CLASSES t of
        Some c \<Rightarrow> Inr c
      | None \<Rightarrow> Inl (ValueError (tuner_message t)))"

subsection \<open>Graph assembly\<close>

text \<open>
  One pass of the loop of \<^verbatim>\<open>_assemble\<close> over the input nodes: four independent tests,
  each appending the node its default block produces.
\<close>

definition apply_default :: "input_class \<Rightarrow> block \<Rightarrow> node \<Rightarrow> node list \<times> event list
    \<Rightarrow> node list \<times> event list" where
  "apply_default k b input_node st =
     (if isinstance input_node k
      then (fst st @ [Node b [input_node]], snd st @ [BlockCall b [input_node]])
      else st)"

fun assemble_loop :: "node list \<Rightarrow> node list \<times> event list \<Rightarrow> node list \<times> event list" where
  "assemble_loop [] st = st"
| "assemble_loop (input_node # rest) st =
     assemble_loop rest
       (apply_default TimeseriesInput TimeseriesBlock input_node
         (apply_default StructuredDataInput StructuredDataBlock input_node
           (apply_default ImageInput ImageBlock input_node
             (apply_default TextInput TextBlock input_node st))))"

text \<open>
  \<^verbatim>\<open>[output_blocks(output_node) for output_blocks in outputs]\<close>: a head is called on the
  combined node; a Node is not callable.
\<close>

fun apply_outputs :: "declared list \<Rightarrow> node \<Rightarrow> event list \<Rightarrow> (error + node list) \<times> event list" where
  "apply_outputs [] output_node w = (Inr [], w)"
| "apply_outputs (OHead h # rest) output_node w =
     (case apply_outputs rest output_node (w @ [BlockCall (HeadBlock h) [output_node]]) of
        (Inl e, w') \<Rightarrow> (Inl e, w')
      | (Inr ns, w') \<Rightarrow> (Inr (Node (HeadBlock h) [output_node] # ns), w'))"
| "apply_outputs (ONode n # rest) output_node w = (Inl (TypeError ''Node is not callable''), w)"

definition assemble :: "node list \<Rightarrow> declared list \<Rightarrow> event list \<Rightarrow> (error + graph) \<times> event list" where
  "assemble inputs0 outputs0 w =
     (let (middle_nodes, w1) = assemble_loop inputs0 ([], w) in
      case (if length middle_nodes > 1
            then (Inr (Node Merge middle_nodes), w1 @ [BlockCall Merge middle_nodes])
            else (case middle_nodes of
                    [] \<Rightarrow> (Inl IndexError, w1)
                  | n # ns \<Rightarrow> (Inr n, w1))) of
        (Inl e, w2) \<Rightarrow> (Inl e, w2)
      | (Inr output_node, w2) \<Rightarrow>
          (case apply_outputs outputs0 output_node w2 of
             (Inl e, w3) \<Rightarrow> (Inl e, w3)
           | (Inr outs, w3) \<Rightarrow> (Inr (Graph inputs0 outs), w3)))"

text \<open>
  \<^verbatim>\<open>_build_graph\<close> returns the graph and the value of \<^verbatim>\<open>self.outputs\<close> after it. When
  neither test holds no branch assigns \<^verbatim>\<open>graph\<close>, and \<^verbatim>\<open>return graph\<close> raises.
\<close>

definition build_graph :: "node list \<Rightarrow> declared list \<Rightarrow> event list
    \<Rightarrow> (error + graph \<times> node list) \<times> event list" where
  "build_graph inputs0 outputs0 w =
     (if list_all is_Node outputs0
      then (Inr (Graph inputs0 (concat (map the_node outputs0)), concat (map the_node outputs0)), w)
      else if list_all is_Head outputs0
      then (case assemble inputs0 outputs0 w of
              (Inl e, w') \<Rightarrow> (Inl e, w')
            | (Inr g, w') \<Rightarrow> (Inr (g, g_outputs g), w'))
      else (Inl (UnboundLocalError ''graph''), w))"

subsection \<open>The constructor\<close>

record AutoModel =
  inputs :: "node list"
  outputs :: "node list"
  seed :: "int option"
  tuner :: tuner_obj
  split_dataset :: bool
  heads :: "block list"
  input_adapters :: "adapter list"
  output_adapters :: "adapter list"

text \<open>Truth value of \<^verbatim>\<open>seed\<close>: \<^verbatim>\<open>None\<close> and \<^verbatim>\<open>0\<close> are false.\<close>

fun seed_truthy :: "int option \<Rightarrow> bool" where
  "seed_truthy None = False"
| "seed_truthy (Some n) = (n \<noteq> 0)"

text \<open>
  \<^verbatim>\<open>np.random.seed\<close> accepts an integer between 0 and 2**32 - 1 and raises ValueError on
  any other integer.
\<close>

definition seed_in_range :: "int \<Rightarrow> bool" where
  "seed_in_range n = (0 \<le> n \<and> n < 2 ^ 32)"

text \<open>
  \<^verbatim>\<open>if seed: np.random.seed(seed); tf.random.set_seed(seed)\<close>. An event records a call
  that returned: when \<^verbatim>\<open>np.random.seed\<close> raises, nothing is seeded, the second call is
  not made and the error leaves the constructor.
\<close>

definition seeding :: "int option \<Rightarrow> event list \<Rightarrow> (error + unit) \<times> event list" where
  "seeding seed0 w =
     (if seed_truthy seed0
      then (if seed_in_range (the seed0)
            then (Inr (), w @ [NpRandomSeed (the seed0), TfRandomSetSeed (the seed0)])
            else (Inl (ValueError ''Seed must be between 0 and 2**32 - 1''), w))
      else (Inr (), w))"

fun first_in_block :: "node \<Rightarrow> error + block" where
  "first_in_block n = (case in_blocks n of [] \<Rightarrow> Inl IndexError | b # bs \<Rightarrow> Inr b)"

fun resolve_tuner :: "tuner_arg \<Rightarrow> error + tuner_class" where
  "resolve_tuner (TunerName s) = get_tuner_class s"
| "resolve_tuner (TunerClass c) = Inr c"

definition init :: "node nest \<Rightarrow> declared nest \<Rightarrow> options \<Rightarrow> tuner_arg \<Rightarrow> int option
    \<Rightarrow> event list \<Rightarrow> (error + AutoModel) \<times> event list" where
  "init inputs0 outputs0 opts tuner0 seed0 w =
     (let self_inputs = flatten inputs0;
          self_outputs = flatten outputs0 in
      case seeding seed0 w of
        (Inl e, w1) \<Rightarrow> (Inl e, w1)
      | (Inr u, w1) \<Rightarrow>
      (case build_graph self_inputs self_outputs w1 of
        (Inl e, w2) \<Rightarrow> (Inl e, w2)
      | (Inr (g, outs), w2) \<Rightarrow>
          (case resolve_tuner tuner0 of
             Inl e \<Rightarrow> (Inl e, w2)
           | Inr c \<Rightarrow>
               (let t = \<lparr>tuner_cls = c, hypermodel = g, tuner_options = opts, tuner_seed = seed0\<rparr>;
                    w3 = w2 @ [TunerNew c] in
                case map_err first_in_block outs of
                  Inl e \<Rightarrow> (Inl e, w3)
                | Inr hs \<Rightarrow>
                    (case map_err node_get_adapter self_inputs of
                       Inl e \<Rightarrow> (Inl e, w3)
                     | Inr ias \<Rightarrow>
                         (case map_err block_get_adapter hs of
                            Inl e \<Rightarrow> (Inl e, w3)
                          | Inr oas \<Rightarrow>
                              (Inr \<lparr>inputs = self_inputs, outputs = outs, seed = seed0,
                                    tuner = t, split_dataset = False, heads = hs,
                                    input_adapters = ias, output_adapters = oas\<rparr>, w3)))))))"

subsection \<open>Operations of the dataset library\<close>

text \<open>
  Modelled from the spec: the dataset library is not part of the source file.
  \<^verbatim>\<open>Dataset.map(f)\<close> calls \<open>f\<close> with the components of the element as positional
  arguments, on the element structure and on every row; \<^verbatim>\<open>Dataset.zip\<close> pairs the rows of
  its datasets up to the shortest one and needs at least one dataset.
\<close>

definition ds_map :: "(shape nest \<Rightarrow> error + shape nest) \<Rightarrow> (tensor nest \<Rightarrow> error + tensor nest)
    \<Rightarrow> dataset \<Rightarrow> error + dataset" where
  "ds_map f g ds =
     (case f (spec ds) of
        Inl e \<Rightarrow> Inl e
      | Inr s \<Rightarrow> (case map_err g (rows ds) of
                   Inl e \<Rightarrow> Inl e
                 | Inr rs \<Rightarrow> Inr \<lparr>spec = s, rows = rs\<rparr>))"

definition zip_rows :: "tensor nest list list \<Rightarrow> tensor nest list" where
  "zip_rows rss =
     map (\<lambda>i. Tuple (map (\<lambda>rs. rs ! i) rss))
       [0 ..< fold min (map length (tl rss)) (length (hd rss))]"

definition ds_zip :: "dataset list \<Rightarrow> error + dataset" where
  "ds_zip dss =
     (if dss = [] then Inl (OpError ''zip'')
      else Inr \<lparr>spec = Tuple (map spec dss), rows = zip_rows (map rows dss)\<rparr>)"

text \<open>The functions the source maps over datasets.\<close>

text \<open>\<^verbatim>\<open>lambda *x: x[0]\<close>\<close>

definition lambda_first :: "'a nest \<Rightarrow> error + 'a nest" where
  "lambda_first e = (case top_level e of [] \<Rightarrow> Inl IndexError | a # as \<Rightarrow> Inr a)"

text \<open>\<^verbatim>\<open>lambda x, y: x\<close> and \<^verbatim>\<open>lambda a, b: a\<close>\<close>

definition lambda_x :: "'a nest \<Rightarrow> error + 'a nest" where
  "lambda_x e = (case top_level e of [a, b] \<Rightarrow> Inr a | _ \<Rightarrow> Inl (TypeError ''lambda''))"

text \<open>\<^verbatim>\<open>lambda a, b: b\<close>\<close>

definition lambda_y :: "'a nest \<Rightarrow> error + 'a nest" where
  "lambda_y e = (case top_level e of [a, b] \<Rightarrow> Inr b | _ \<Rightarrow> Inl (TypeError ''lambda''))"

text \<open>\<^verbatim>\<open>lambda *a: nest.flatten(a)[index]\<close>\<close>

definition lambda_index :: "nat \<Rightarrow> 'a nest \<Rightarrow> error + 'a nest" where
  "lambda_index index e =
     (if index < length (flatten (Tuple (top_level e)))
      then Inr (Leaf (flatten (Tuple (top_level e)) ! index))
      else Inl IndexError)"

text \<open>\<^verbatim>\<open>lambda *x: (x, )\<close>\<close>

definition lambda_wrap :: "'a nest \<Rightarrow> error + 'a nest" where
  "lambda_wrap e = Inr (Tuple [Tuple (top_level e)])"

text \<open>
  Modelled from the spec: \<^verbatim>\<open>data_utils.dataset_shape\<close> is not part of the source file;
  it gives the structure of shapes of the dataset's element.
\<close>

definition dataset_shape :: "dataset \<Rightarrow> shape nest" where
  "dataset_shape ds = spec ds"

text \<open>
  Modelled from the spec: \<^verbatim>\<open>data_utils.split_dataset\<close> is not part of the source file.
  The spec asks for a deterministic split "into train/validation partitions of
  (1-fraction)/fraction size, taken from the trailing portion of the dataset in its current
  (unshuffled) order". The validation part has \<open>\<lfloor>n * fraction\<rfloor>\<close> of the \<open>n\<close> rows (the spec
  does not say how a fractional size is rounded).
\<close>

definition split_size :: "nat \<Rightarrow> rat \<Rightarrow> nat" where
  "split_size n fraction = nat \<lfloor>of_nat n * fraction\<rfloor>"

definition data_utils_split_dataset :: "dataset \<Rightarrow> rat \<Rightarrow> dataset \<times> dataset" where
  "data_utils_split_dataset ds fraction =
     (let n = length (rows ds);
          k = n - split_size n fraction in
      (\<lparr>spec = spec ds, rows = take k (rows ds)\<rparr>, \<lparr>spec = spec ds, rows = drop k (rows ds)\<rparr>))"

subsection \<open>Checking the data format\<close>

text \<open>\<^verbatim>\<open>a.shape\<close>: an array has a shape (its first dimension is all that is kept here).\<close>

fun shape_attr :: "leaf \<Rightarrow> error + shape" where
  "shape_attr (Array xs) = Inr [length xs]"
| "shape_attr PyNone = Inl (AttributeError ''shape'')"
| "shape_attr (Ds d) = Inl (AttributeError ''shape'')"

text \<open>\<^verbatim>\<open>str(n)\<close> of a count: its decimal digits.\<close>

definition digit :: "nat \<Rightarrow> char" where
  "digit n = ''0123456789'' ! n"

fun str :: "nat \<Rightarrow> string" where
  "str n = (if n < 10 then [digit n] else str (n div 10) @ [digit (n mod 10)])"

fun is_Dataset :: "pydata \<Rightarrow> bool" where
  "is_Dataset (Leaf (Ds d)) = True"
| "is_Dataset x = False"

fun the_Dataset :: "pydata \<Rightarrow> dataset list" where
  "the_Dataset (Leaf (Ds d)) = [d]"
| "the_Dataset x = []"

text \<open>\<^verbatim>\<open>x_shapes, y_shapes = v\<close>\<close>

definition unpack2 :: "'a list \<Rightarrow> error + 'a \<times> 'a" where
  "unpack2 v = (case v of [a, b] \<Rightarrow> Inr (a, b) | _ \<Rightarrow> Inl UnpackError)"

definition in_val :: "bool \<Rightarrow> string" where
  "in_val validation = (if validation then '' in validation_data'' else [])"

definition x_message :: "bool \<Rightarrow> nat \<Rightarrow> nat \<Rightarrow> string" where
  "x_message validation input_num data_num =
     ''Expect x'' @ in_val validation @ '' to have '' @ str input_num
     @ '' arrays, but got '' @ str data_num"

definition y_message :: "bool \<Rightarrow> nat \<Rightarrow> nat \<Rightarrow> string" where
  "y_message validation output_num data_num =
     ''Expect y'' @ in_val validation @ '' to have '' @ str output_num
     @ '' arrays, but got '' @ str data_num"

definition dataset_y_message :: "bool \<Rightarrow> string" where
  "dataset_y_message validation =
     ''Expect y is None when x is tf.data.Dataset'' @ in_val validation @ ''.''"

text \<open>
  The shapes \<^verbatim>\<open>_check_data_format\<close> collects: \<open>x_shapes\<close>, and \<open>y_shapes\<close> when not in
  predict mode (in predict mode \<open>y_shapes\<close> is never assigned and never read; the empty
  list stands for it).
\<close>

definition collect_shapes :: "pydata \<Rightarrow> pydata \<Rightarrow> bool \<Rightarrow> error + shape list \<times> shape list" where
  "collect_shapes x y predict =
     (case the_Dataset x of
        d # ds \<Rightarrow>
          (if \<not> predict
           then (case unpack2 (top_level (dataset_shape d)) of
                   Inl e \<Rightarrow> Inl e
                 | Inr (x_shapes, y_shapes) \<Rightarrow> Inr (flatten x_shapes, flatten y_shapes))
           else Inr (flatten (dataset_shape d), []))
      | [] \<Rightarrow>
          (case map_err shape_attr (flatten x) of
             Inl e \<Rightarrow> Inl e
           | Inr x_shapes \<Rightarrow>
               (if \<not> predict
                then (case map_err shape_attr (flatten y) of
                        Inl e \<Rightarrow> Inl e
                      | Inr y_shapes \<Rightarrow> Inr (x_shapes, y_shapes))
                else Inr (x_shapes, []))))"

definition check_data_format :: "AutoModel \<Rightarrow> pydata \<Rightarrow> pydata \<Rightarrow> bool \<Rightarrow> bool \<Rightarrow> error + unit" where
  "check_data_format self x y validation predict =
     (if is_Dataset x \<and> y \<noteq> Leaf PyNone
      then Inl (ValueError (dataset_y_message validation))
      else (case collect_shapes x y predict of
              Inl e \<Rightarrow> Inl e
            | Inr (x_shapes, y_shapes) \<Rightarrow>
                (if length x_shapes \<noteq> length (inputs self)
                 then Inl (ValueError
                        (x_message validation (length (inputs self)) (length x_shapes)))
                 else if \<not> predict \<and> length y_shapes \<noteq> length (outputs self)
                 then Inl (ValueError
                        (y_message validation (length (outputs self)) (length y_shapes)))
                 else Inr ())))"

subsection \<open>Adapting the sources\<close>

text \<open>
  The object \<^verbatim>\<open>_adapt\<close> configures from a fitted adapter: an input node or a head.
\<close>

datatype hyper_model = HmNode node | HmBlock block

fun adapt_loop :: "(leaf \<times> hyper_model \<times> adapter) list \<Rightarrow> bool \<Rightarrow> dataset list \<times> event list
    \<Rightarrow> dataset list \<times> event list" where
  "adapt_loop [] fit st = st"
| "adapt_loop ((source, hm, adapter) # rest) fit (adapted, w) =
     (if fit
      then adapt_loop rest fit
             (adapted @ [fit_transform adapter source],
              w @ [FitTransform (adapter_name adapter), ConfigFromAdapter (adapter_name adapter)])
      else adapt_loop rest fit
             (adapted @ [transform adapter source], w @ [Transform (adapter_name adapter)]))"

definition adapt :: "pydata \<Rightarrow> bool \<Rightarrow> hyper_model list \<Rightarrow> adapter list \<Rightarrow> event list
    \<Rightarrow> (error + dataset) \<times> event list" where
  "adapt sources fit hms adapters w =
     (let (adapted, w') = adapt_loop (zip (flatten sources) (zip hms adapters)) fit ([], w) in
      case adapted of
        [d] \<Rightarrow> (Inr d, w')
      | _ \<Rightarrow> (ds_zip adapted, w'))"

text \<open>
  \<^verbatim>\<open>[d.map(lambda *a: nest.flatten(a)[index]) for index in range(n)]\<close>, as the nested
  structure \<^verbatim>\<open>_adapt\<close> flattens.
\<close>

definition split_components :: "dataset \<Rightarrow> nat \<Rightarrow> error + pydata" where
  "split_components d n =
     (case map_err (\<lambda>index. ds_map (lambda_index index) (lambda_index index) d) [0 ..< n] of
        Inl e \<Rightarrow> Inl e
      | Inr ds \<Rightarrow> Inr (Tuple (map (\<lambda>c. Leaf (Ds c)) ds)))"

text \<open>The branch of \<^verbatim>\<open>_process_xy\<close> for a dataset \<open>x\<close>: the new values of \<open>x\<close> and \<open>y\<close>.\<close>

definition destructure :: "AutoModel \<Rightarrow> dataset \<Rightarrow> pydata \<Rightarrow> bool \<Rightarrow> error + pydata \<times> pydata" where
  "destructure self dataset0 y predict =
     (if \<not> predict
      then (case ds_map lambda_y lambda_y dataset0 of
              Inl e \<Rightarrow> Inl e
            | Inr y1 \<Rightarrow>
                (case split_components y1 (length (outputs self)) of
                   Inl e \<Rightarrow> Inl e
                 | Inr y2 \<Rightarrow>
                     (case ds_map lambda_x lambda_x dataset0 of
                        Inl e \<Rightarrow> Inl e
                      | Inr x1 \<Rightarrow>
                          (case split_components x1 (length (inputs self)) of
                             Inl e \<Rightarrow> Inl e
                           | Inr x2 \<Rightarrow> Inr (x2, y2)))))
      else (case split_components dataset0 (length (inputs self)) of
              Inl e \<Rightarrow> Inl e
            | Inr x2 \<Rightarrow> Inr (x2, y)))"

definition process_xy :: "AutoModel \<Rightarrow> pydata \<Rightarrow> pydata \<Rightarrow> bool \<Rightarrow> bool \<Rightarrow> bool \<Rightarrow> event list
    \<Rightarrow> (error + dataset) \<times> event list" where
  "process_xy self x y fit validation predict w =
     (case check_data_format self x y validation predict of
        Inl e \<Rightarrow> (Inl e, w)
      | Inr u \<Rightarrow>
          (case (case the_Dataset x of
                   d # ds \<Rightarrow> destructure self d y predict
                 | [] \<Rightarrow> Inr (x, y)) of
             Inl e \<Rightarrow> (Inl e, w)
           | Inr (x1, y1) \<Rightarrow>
               (case adapt x1 fit (map HmNode (inputs self)) (input_adapters self) w of
                  (Inl e, w1) \<Rightarrow> (Inl e, w1)
                | (Inr xd, w1) \<Rightarrow>
                    (if \<not> predict
                     then (case adapt y1 fit (map HmBlock (heads self)) (output_adapters self) w1 of
                             (Inl e, w2) \<Rightarrow> (Inl e, w2)
                           | (Inr yd, w2) \<Rightarrow> (ds_zip [xd, yd], w2))
                     else if length (inputs self) = 1
                     then (Inr xd, w1)
                     else (ds_map lambda_wrap lambda_wrap xd, w1)))))"

subsection \<open>Preparing the data and fitting\<close>

text \<open>
  The \<^verbatim>\<open>validation_data\<close> argument: \<^verbatim>\<open>None\<close>, a dataset, or a tuple. \<^verbatim>\<open>None\<close> and the
  empty tuple are false.
\<close>

datatype validation_arg = VNone | VDataset dataset | VTuple "pydata list"

fun validation_truthy :: "validation_arg \<Rightarrow> bool" where
  "validation_truthy VNone = False"
| "validation_truthy (VDataset d) = True"
| "validation_truthy (VTuple xs) = (xs \<noteq> [])"

text \<open>The \<^verbatim>\<open>validation_split\<close> argument: \<^verbatim>\<open>None\<close> or a number; \<^verbatim>\<open>None\<close> and zero are false.\<close>

fun split_truthy :: "rat option \<Rightarrow> bool" where
  "split_truthy None = False"
| "split_truthy (Some r) = (r \<noteq> 0)"

text \<open>
  The second component \<^verbatim>\<open>_prepare_data\<close> returns: a dataset, or the argument unchanged
  when it was false without being \<^verbatim>\<open>None\<close>.
\<close>

datatype validation_out = VOut dataset | VSame validation_arg

text \<open>\<^verbatim>\<open>x_val = validation_data; y_val = None\<close> or \<^verbatim>\<open>x_val, y_val = validation_data\<close>\<close>

fun validation_xy :: "validation_arg \<Rightarrow> error + pydata \<times> pydata" where
  "validation_xy (VDataset d) = Inr (Leaf (Ds d), Leaf PyNone)"
| "validation_xy (VTuple v) = unpack2 v"
| "validation_xy VNone = Inl UnpackError"

definition prepare_data :: "AutoModel \<Rightarrow> pydata \<Rightarrow> pydata \<Rightarrow> validation_arg \<Rightarrow> rat option
    \<Rightarrow> event list \<Rightarrow> (error + dataset \<times> validation_out) \<times> AutoModel \<times> event list" where
  "prepare_data self x y validation_data validation_split w =
     (if \<not> validation_truthy validation_data \<and> \<not> split_truthy validation_split
      then (Inl (ValueError ''Either validation_data or validation_split should be provided.''),
            self, w)
      else (case check_data_format self x y False False of
              Inl e \<Rightarrow> (Inl e, self, w)
            | Inr u \<Rightarrow>
                (case process_xy self x y True False False w of
                   (Inl e, w1) \<Rightarrow> (Inl e, self, w1)
                 | (Inr dataset0, w1) \<Rightarrow>
                     (if validation_truthy validation_data
                      then (let self1 = self\<lparr>split_dataset := False\<rparr> in
                            case validation_xy validation_data of
                              Inl e \<Rightarrow> (Inl e, self1, w1)
                            | Inr (x_val, y_val) \<Rightarrow>
                                (case process_xy self1 x_val y_val False True False w1 of
                                   (Inl e, w2) \<Rightarrow> (Inl e, self1, w2)
                                 | (Inr v, w2) \<Rightarrow> (Inr (dataset0, VOut v), self1, w2)))
                      else if validation_data = VNone \<and> split_truthy validation_split
                      then (let self1 = self\<lparr>split_dataset := True\<rparr>;
                                (train, val) = data_utils_split_dataset dataset0 (the validation_split)
                            in (Inr (train, VOut val), self1, w1))
                      else (Inr (dataset0, VSame validation_data), self, w1)))))"

text \<open>
  \<^verbatim>\<open>fit\<close>; the callbacks and the keyword arguments are handed to the tuner unchanged and
  are left out.
\<close>

definition fit :: "AutoModel \<Rightarrow> pydata \<Rightarrow> pydata \<Rightarrow> nat \<Rightarrow> int option \<Rightarrow> rat option
    \<Rightarrow> validation_arg \<Rightarrow> event list \<Rightarrow> (error + unit) \<times> AutoModel \<times> event list" where
  "fit self x y batch_size epochs validation_split validation_data w =
     (case prepare_data self x y validation_data validation_split w of
        (Inl e, self1, w1) \<Rightarrow> (Inl e, self1, w1)
      | (Inr (dataset0, v), self1, w1) \<Rightarrow>
          (case v of
             VSame a \<Rightarrow> (Inl (AttributeError ''batch''), self1, w1)
           | VOut val \<Rightarrow>
               (Inr (), self1,
                w1 @ [TunerSearch (Batch dataset0 batch_size) epochs (Batch val batch_size)
                        (split_dataset self1)])))"

subsection \<open>Prediction and evaluation data\<close>

definition get_x :: "AutoModel \<Rightarrow> dataset \<Rightarrow> event list \<Rightarrow> (error + dataset) \<times> event list" where
  "get_x self dataset0 w =
     (let shapes = top_level (dataset_shape dataset0);
          w1 = w @ [Print (str (length shapes))] in
      if length shapes \<le> 1
      then (ds_map lambda_first lambda_first dataset0, w1)
      else if list_ex is_Tuple shapes
      then (ds_map lambda_x lambda_x dataset0, w1)
      else if length shapes = 2 \<and> length (inputs self) = 1 \<and> length (outputs self) = 1
      then (ds_map lambda_x lambda_x dataset0, w1)
      else (Inr dataset0, w1))"

text \<open>
  The part of \<^verbatim>\<open>predict\<close> that builds the batched dataset handed to the best model
  (the model's prediction and its post-processing are not modelled).
\<close>

definition predict_dataset :: "AutoModel \<Rightarrow> pydata \<Rightarrow> nat \<Rightarrow> event list
    \<Rightarrow> (error + batched) \<times> event list" where
  "predict_dataset self x batch_size w =
     (case (case the_Dataset x of
              d # ds \<Rightarrow>
                (case get_x self d w of
                   (Inl e, w1) \<Rightarrow> (Inl e, w1)
                 | (Inr x1, w1) \<Rightarrow> process_xy self (Leaf (Ds x1)) (Leaf PyNone) False False True w1)
            | [] \<Rightarrow> adapt x False (map HmNode (inputs self)) (input_adapters self) w) of
        (Inl e, w2) \<Rightarrow> (Inl e, w2)
      | (Inr dataset0, w2) \<Rightarrow> (Inr (Batch dataset0 batch_size), w2))"

text \<open>The part of \<^verbatim>\<open>evaluate\<close> that builds the batched dataset handed to the best model.\<close>

definition evaluate_dataset :: "AutoModel \<Rightarrow> pydata \<Rightarrow> pydata \<Rightarrow> nat \<Rightarrow> event list
    \<Rightarrow> (error + batched) \<times> event list" where
  "evaluate_dataset self x y batch_size w =
     (case process_xy self x y False False False w of
        (Inl e, w1) \<Rightarrow> (Inl e, w1)
      | (Inr dataset0, w1) \<Rightarrow> (Inr (Batch dataset0 batch_size), w1))"

section \<open>Descriptions used in the statements, and example objects\<close>

text \<open>
  The definitions of this section are not part of the program. They name what the
  statements below talk about (the default block of an input kind, the nodes and calls an
  assembly produces, the message of an arity mismatch) and fix the concrete objects the
  closed instances are evaluated on. Each is related to the code by a lemma below.
\<close>

text \<open>
  The default encoder block of each recognised input kind; a plain \<open>Input\<close> has none.
\<close>

fun default_block :: "input_class \<Rightarrow> block option" where
  "default_block TextInput = Some TextBlock"
| "default_block ImageInput = Some ImageBlock"
| "default_block StructuredDataInput = Some StructuredDataBlock"
| "default_block TimeseriesInput = Some TimeseriesBlock"
| "default_block Input = None"

fun encoder :: "node \<Rightarrow> block option" where
  "encoder (InputNode c a) = default_block c"
| "encoder (Node b ns) = None"

text \<open>
  The middle nodes of an inferred assembly: one node per recognised input, in the order of
  the inputs, each produced by the input's default block. \<open>encoder_calls\<close> are the block
  calls that produce them.
\<close>

definition middle_nodes :: "node list \<Rightarrow> node list" where
  "middle_nodes ins = List.map_filter (\<lambda>n. map_option (\<lambda>b. Node b [n]) (encoder n)) ins"

definition encoder_calls :: "node list \<Rightarrow> event list" where
  "encoder_calls ins = List.map_filter (\<lambda>n. map_option (\<lambda>b. BlockCall b [n]) (encoder n)) ins"

fun is_seed_call :: "event \<Rightarrow> bool" where
  "is_seed_call (NpRandomSeed n) = True"
| "is_seed_call (TfRandomSetSeed n) = True"
| "is_seed_call e = False"

fun is_BlockCall :: "event \<Rightarrow> bool" where
  "is_BlockCall (BlockCall b ns) = True"
| "is_BlockCall e = False"

text \<open>
  The node every head is applied to: the node of one Merge block when there is more than
  one middle node, else the only middle node.
\<close>

definition combined :: "node list \<Rightarrow> node" where
  "combined ins =
     (if length (middle_nodes ins) > 1 then Node Merge (middle_nodes ins) else hd (middle_nodes ins))"

definition merge_calls :: "node list \<Rightarrow> event list" where
  "merge_calls ins =
     (if length (middle_nodes ins) > 1 then [BlockCall Merge (middle_nodes ins)] else [])"

definition head_nodes :: "head list \<Rightarrow> node \<Rightarrow> node list" where
  "head_nodes hs n = map (\<lambda>h. Node (HeadBlock h) [n]) hs"

definition head_calls :: "head list \<Rightarrow> node \<Rightarrow> event list" where
  "head_calls hs n = map (\<lambda>h. BlockCall (HeadBlock h) [n]) hs"

text \<open>
  A concrete adapter for the closed instances: an array becomes the dataset of its
  examples, a dataset is kept.
\<close>

definition to_dataset :: "leaf \<Rightarrow> dataset" where
  "to_dataset s =
     (case s of
        PyNone \<Rightarrow> \<lparr>spec = Leaf [], rows = []\<rparr>
      | Array xs \<Rightarrow> \<lparr>spec = Leaf [], rows = map Leaf xs\<rparr>
      | Ds d \<Rightarrow> d)"

definition ex_adapter :: "nat \<Rightarrow> adapter" where
  "ex_adapter i = Adapter i to_dataset to_dataset"

definition ex_image :: node where
  "ex_image = InputNode ImageInput (ex_adapter 0)"

definition ex_text :: node where
  "ex_text = InputNode TextInput (ex_adapter 1)"

definition ex_head :: head where
  "ex_head = Head 0 (ex_adapter 2)"

definition ex_options :: options where
  "ex_options = \<lparr>preprocessors = None, project_name = ''auto_model'', max_trials = 100,
     directory = None, objective = ''val_loss'', overwrite = False\<rparr>"

definition ex_model :: AutoModel where
  "ex_model =
     \<lparr>inputs = [ex_image],
      outputs = [Node (HeadBlock ex_head) [Node ImageBlock [ex_image]]],
      seed = None,
      tuner = \<lparr>tuner_cls = Greedy,
        hypermodel = Graph [ex_image] [Node (HeadBlock ex_head) [Node ImageBlock [ex_image]]],
        tuner_options = ex_options, tuner_seed = None\<rparr>,
      split_dataset = False,
      heads = [HeadBlock ex_head],
      input_adapters = [ex_adapter 0],
      output_adapters = [ex_adapter 2]\<rparr>"

text \<open>
  The message of the arity check, for the side that is compared first.
\<close>

definition mismatch_message :: "AutoModel \<Rightarrow> bool \<Rightarrow> shape list \<Rightarrow> shape list \<Rightarrow> string" where
  "mismatch_message self validation x_shapes y_shapes =
     (if length x_shapes \<noteq> length (inputs self)
      then x_message validation (length (inputs self)) (length x_shapes)
      else y_message validation (length (outputs self)) (length y_shapes))"

text \<open>
  The top-level elements of a dataset's element structure, and the first of the top-level
  elements of a structure.
\<close>

definition first_level :: "dataset \<Rightarrow> shape nest list" where
  "first_level ds = top_level (dataset_shape ds)"

definition first_of :: "'a nest \<Rightarrow> 'a nest" where
  "first_of e = (case top_level e of [] \<Rightarrow> e | a # as \<Rightarrow> a)"

definition ex_x :: pydata where
  "ex_x = Leaf (Array [1, 2, 3, 4, 5])"

definition ex_y :: pydata where
  "ex_y = Leaf (Array [11, 12, 13, 14, 15])"

definition ex_processed :: dataset where
  "ex_processed =
     \<lparr>spec = Tuple [Leaf [], Leaf []],
      rows = [Tuple [Leaf 1, Leaf 11], Tuple [Leaf 2, Leaf 12], Tuple [Leaf 3, Leaf 13],
              Tuple [Leaf 4, Leaf 14], Tuple [Leaf 5, Leaf 15]]\<rparr>"

definition ex_fit_calls :: "event list" where
  "ex_fit_calls = [FitTransform 0, ConfigFromAdapter 0, FitTransform 2, ConfigFromAdapter 2]"

definition ex_two_arrays :: pydata where
  "ex_two_arrays = Tuple [Leaf (Array [6]), Leaf (Array [7])]"

definition ex_nested :: dataset where
  "ex_nested = \<lparr>spec = Tuple [Tuple [Leaf [], Leaf []]], rows = [Tuple [Tuple [Leaf 1, Leaf 2]]]\<rparr>"

definition ex_triple :: dataset where
  "ex_triple =
     \<lparr>spec = Tuple [Leaf [], Tuple [Leaf [], Leaf []], Leaf []],
      rows = [Tuple [Leaf 1, Tuple [Leaf 2, Leaf 3], Leaf 4]]\<rparr>"

definition ex_flat3 :: dataset where
  "ex_flat3 = \<lparr>spec = Tuple [Leaf [], Leaf [], Leaf []], rows = [Tuple [Leaf 1, Leaf 2, Leaf 3]]\<rparr>"

definition ex_single :: dataset where
  "ex_single = \<lparr>spec = Tuple [Leaf [2]], rows = [Tuple [Leaf 1], Tuple [Leaf 2]]\<rparr>"

text \<open>
  What one pass of the loop of \<^verbatim>\<open>_adapt\<close> appends for one slot (a source with its
  hyper-model and adapter): the adapted dataset, and the calls made.
\<close>

definition slot_dataset :: "bool \<Rightarrow> leaf \<times> hyper_model \<times> adapter \<Rightarrow> dataset" where
  "slot_dataset fitting z =
     (case z of (source, hm, adapter) \<Rightarrow>
        if fitting then fit_transform adapter source else transform adapter source)"

definition slot_calls :: "bool \<Rightarrow> leaf \<times> hyper_model \<times> adapter \<Rightarrow> event list" where
  "slot_calls fitting z =
     (case z of (source, hm, adapter) \<Rightarrow>
        if fitting
        then [FitTransform (adapter_name adapter), ConfigFromAdapter (adapter_name adapter)]
        else [Transform (adapter_name adapter)])"

section \<open>Properties\<close>

subsection \<open>The loops of the assembly\<close>

lemma apply_default_chain:
  "apply_default TimeseriesInput TimeseriesBlock n
     (apply_default StructuredDataInput StructuredDataBlock n
       (apply_default ImageInput ImageBlock n
         (apply_default TextInput TextBlock n (ms, w)))) =
   (ms @ middle_nodes [n], w @ encoder_calls [n])"
proof (cases n)
  case (InputNode c a)
  then show ?thesis
    by (cases c) (simp_all add: apply_default_def middle_nodes_def encoder_calls_def List.map_filter_def)
next
  case (Node b ns)
  then show ?thesis
    by (simp add: apply_default_def middle_nodes_def encoder_calls_def List.map_filter_def)
qed

lemma middle_nodes_Cons: "middle_nodes (n # ns) = middle_nodes [n] @ middle_nodes ns"
  by (simp add: middle_nodes_def List.map_filter_def)

lemma encoder_calls_Cons: "encoder_calls (n # ns) = encoder_calls [n] @ encoder_calls ns"
  by (simp add: encoder_calls_def List.map_filter_def)

lemma assemble_loop_eq:
  "assemble_loop ins (ms, w) = (ms @ middle_nodes ins, w @ encoder_calls ins)"
proof (induction ins arbitrary: ms w)
  case Nil
  then show ?case by (simp add: middle_nodes_def encoder_calls_def List.map_filter_def)
next
  case (Cons n ins)
  show ?case
    by (simp only: assemble_loop.simps apply_default_chain Cons.IH
        middle_nodes_Cons [of n ins] encoder_calls_Cons [of n ins] append_assoc)
qed

lemma apply_outputs_heads:
  "apply_outputs (map OHead hs) n w =
     (Inr (map (\<lambda>h. Node (HeadBlock h) [n]) hs), w @ map (\<lambda>h. BlockCall (HeadBlock h) [n]) hs)"
  by (induction hs arbitrary: w) simp_all

lemma assemble_heads:
  "assemble ins (map OHead hs) w =
     (if middle_nodes ins = [] then (Inl IndexError, w)
      else (Inr (Graph ins (head_nodes hs (combined ins))),
            w @ encoder_calls ins @ merge_calls ins @ head_calls hs (combined ins)))"
proof (cases "middle_nodes ins")
  case Nil
  then have "encoder_calls ins = []"
    by (simp add: middle_nodes_def encoder_calls_def List.map_filter_def filter_empty_conv)
  with Nil show ?thesis
    by (simp add: assemble_def assemble_loop_eq)
next
  case (Cons m ms)
  then show ?thesis
    by (cases ms)
      (simp_all add: assemble_def assemble_loop_eq apply_outputs_heads combined_def
        merge_calls_def head_nodes_def head_calls_def)
qed

lemma list_all_is_Head_map: "list_all is_Head outs \<Longrightarrow> \<exists>hs. outs = map OHead hs"
proof (induction outs)
  case Nil
  then show ?case by simp
next
  case (Cons a outs)
  then obtain hs where "outs = map OHead hs" by auto
  moreover from Cons.prems obtain h where "a = OHead h" by (cases a) auto
  ultimately have "a # outs = map OHead (h # hs)" by simp
  then show ?case by (rule exI [of _ "h # hs"])
qed

lemma filter_encoder_calls:
  "(\<And>b ns. \<not> P (BlockCall b ns)) \<Longrightarrow> filter P (encoder_calls ins) = []"
  by (auto simp: encoder_calls_def List.map_filter_def filter_empty_conv)

lemma build_graph_trace:
  assumes "\<And>b ns. \<not> P (BlockCall b ns)"
  shows "filter P (snd (build_graph ins outs w)) = filter P w"
proof (cases "list_all is_Node outs")
  case True
  then show ?thesis by (simp add: build_graph_def)
next
  case notNode: False
  show ?thesis
  proof (cases "list_all is_Head outs")
    case True
    then obtain hs where hs: "outs = map OHead hs"
      using list_all_is_Head_map by blast
    show ?thesis
      using notNode True assms
      by (simp add: build_graph_def hs assemble_heads filter_encoder_calls merge_calls_def
          head_calls_def filter_empty_conv)
  next
    case False
    with notNode show ?thesis by (simp add: build_graph_def)
  qed
qed

lemma init_trace:
  assumes "\<And>b ns. \<not> P (BlockCall b ns)" and "\<And>c. \<not> P (TunerNew c)"
  shows "filter P (snd (init i0 o0 opts t s w)) = filter P (snd (seeding s w))"
proof -
  obtain r0 w1 where sd: "seeding s w = (r0, w1)"
    by (cases "seeding s w")
  obtain r w2 where bg: "build_graph (flatten i0) (flatten o0) w1 = (r, w2)"
    by (cases "build_graph (flatten i0) (flatten o0) w1")
  have w2: "filter P w2 = filter P w1"
    using build_graph_trace [of P "flatten i0" "flatten o0" w1] assms(1) bg by simp
  show ?thesis
    using w2 assms(2)
    by (simp add: init_def sd bg Let_def split: sum.splits prod.splits)
qed

lemma seeding_cases:
  "seeding s w =
     (if seed_truthy s \<and> \<not> seed_in_range (the s)
      then (Inl (ValueError ''Seed must be between 0 and 2**32 - 1''), w)
      else (Inr (), w @ (if seed_truthy s then [NpRandomSeed (the s), TfRandomSetSeed (the s)] else [])))"
  by (simp add: seeding_def)

lemma init_seeding_fails:
  "seeding s w = (Inl e, w1) \<Longrightarrow> init i0 o0 opts t s w = (Inl e, w1)"
  by (simp add: init_def)

subsection \<open>Graph assembly and the constructor\<close>

lemma mixed_not_all:
  "list_ex is_Node outs \<Longrightarrow> list_ex is_Head outs \<Longrightarrow> \<not> list_all is_Node outs \<and> \<not> list_all is_Head outs"
proof (induction outs)
  case Nil
  then show ?case by simp
next
  case (Cons a outs)
  then show ?case by (cases a) (auto simp: list_ex_iff list_all_iff)
qed

text \<open>
  Claim C2. When the declared outputs contain a Node and a bare Head, neither test of
  \<^verbatim>\<open>_build_graph\<close> holds, no branch assigns \<^verbatim>\<open>graph\<close> and \<^verbatim>\<open>return graph\<close> raises
  (Python's UnboundLocalError): the constructor fails at once, \<^verbatim>\<open>_assemble\<close> is never
  entered, and the only calls made are the seeding calls, so no block has been
  instantiated. This is so for every seed: a seed that \<^verbatim>\<open>np.random.seed\<close> refuses makes
  the constructor fail even earlier, with that error and no call made.
\<close>

theorem mixed_outputs_fail_fast:
  assumes "list_ex is_Node (flatten outputs0)" and "list_ex is_Head (flatten outputs0)"
  shows "build_graph (flatten inputs0) (flatten outputs0) w = (Inl (UnboundLocalError ''graph''), w)
       \<and> init inputs0 outputs0 opts tuner0 seed0 w =
           (case seeding seed0 w of
              (Inl e, w1) \<Rightarrow> (Inl e, w1)
            | (Inr u, w1) \<Rightarrow> (Inl (UnboundLocalError ''graph''), w1))
       \<and> (\<not> seed_truthy seed0 \<or> seed_in_range (the seed0) \<longrightarrow>
            init inputs0 outputs0 opts tuner0 seed0 w =
              (Inl (UnboundLocalError ''graph''),
               w @ (if seed_truthy seed0 then [NpRandomSeed (the seed0), TfRandomSetSeed (the seed0)] else [])))
       \<and> isl (fst (init inputs0 outputs0 opts tuner0 seed0 w))
       \<and> filter is_BlockCall (snd (init inputs0 outputs0 opts tuner0 seed0 w)) = filter is_BlockCall w"
proof -
  have bg: "\<And>ins w. build_graph ins (flatten outputs0) w = (Inl (UnboundLocalError ''graph''), w)"
    using mixed_not_all [OF assms] by (simp add: build_graph_def)
  have i: "init inputs0 outputs0 opts tuner0 seed0 w =
           (case seeding seed0 w of
              (Inl e, w1) \<Rightarrow> (Inl e, w1)
            | (Inr u, w1) \<Rightarrow> (Inl (UnboundLocalError ''graph''), w1))"
    by (simp add: bg init_def split: prod.splits sum.splits)
  have a: "\<not> seed_truthy seed0 \<or> seed_in_range (the seed0) \<longrightarrow>
            init inputs0 outputs0 opts tuner0 seed0 w =
              (Inl (UnboundLocalError ''graph''),
               w @ (if seed_truthy seed0 then [NpRandomSeed (the seed0), TfRandomSetSeed (the seed0)] else []))"
    by (auto simp: i seeding_cases)
  have f: "isl (fst (init inputs0 outputs0 opts tuner0 seed0 w))"
    by (simp add: i seeding_cases)
  have t: "filter is_BlockCall (snd (init inputs0 outputs0 opts tuner0 seed0 w)) = filter is_BlockCall w"
    by (simp add: i seeding_cases)
  show ?thesis
    using bg i a f t by blast
qed

theorem mixed_outputs_fail_fast_witness:
  "list_ex is_Node (flatten (Tuple [Leaf (ONode (Node (HeadBlock ex_head) [ex_image])), Leaf (OHead ex_head)]))
   \<and> list_ex is_Head (flatten (Tuple [Leaf (ONode (Node (HeadBlock ex_head) [ex_image])), Leaf (OHead ex_head)]))
   \<and> init (Leaf ex_image) (Tuple [Leaf (ONode (Node (HeadBlock ex_head) [ex_image])), Leaf (OHead ex_head)])
        ex_options (TunerName ''greedy'') None [] = (Inl (UnboundLocalError ''graph''), [])"
  using mixed_outputs_fail_fast [of "Tuple [Leaf (ONode (Node (HeadBlock ex_head) [ex_image])), Leaf (OHead ex_head)]"
      "Leaf ex_image" "[]" ex_options "TunerName ''greedy''" None]
  by (simp add: seeding_def)

text \<open>
  Claim C3. With the heads \<open>hs\<close> declared, \<^verbatim>\<open>_assemble\<close> combines more than one middle
  node by exactly one call of a Merge block and applies the heads to the merged node; uses
  the only middle node directly, with no Merge call, when there is exactly one; and fails
  (\<^verbatim>\<open>middle_nodes[0]\<close> raises IndexError) with no call made when there is none, which is
  the case exactly when no input has a recognised kind.
\<close>

theorem assemble_merge_cases:
  "assemble ins (map OHead hs) w =
     (if length (middle_nodes ins) > 1
      then (Inr (Graph ins (head_nodes hs (Node Merge (middle_nodes ins)))),
            w @ encoder_calls ins @ [BlockCall Merge (middle_nodes ins)]
              @ head_calls hs (Node Merge (middle_nodes ins)))
      else if length (middle_nodes ins) = 1
      then (Inr (Graph ins (head_nodes hs (hd (middle_nodes ins)))),
            w @ encoder_calls ins @ head_calls hs (hd (middle_nodes ins)))
      else (Inl IndexError, w))
   \<and> (middle_nodes ins = [] \<longleftrightarrow> list_all (\<lambda>n. encoder n = None) ins)"
proof -
  have "middle_nodes ins = [] \<longleftrightarrow> list_all (\<lambda>n. encoder n = None) ins"
    by (auto simp: middle_nodes_def List.map_filter_def filter_empty_conv list_all_iff)
  moreover have "length (middle_nodes ins) = 1 \<or> length (middle_nodes ins) > 1 \<or> middle_nodes ins = []"
    by (cases "middle_nodes ins") auto
  ultimately show ?thesis
    by (auto simp: assemble_heads combined_def merge_calls_def)
qed

theorem assemble_merge_cases_witness:
  "assemble [ex_image, ex_text] (map OHead [ex_head]) [] =
     (Inr (Graph [ex_image, ex_text]
        [Node (HeadBlock ex_head) [Node Merge [Node ImageBlock [ex_image], Node TextBlock [ex_text]]]]),
      [BlockCall ImageBlock [ex_image], BlockCall TextBlock [ex_text],
       BlockCall Merge [Node ImageBlock [ex_image], Node TextBlock [ex_text]],
       BlockCall (HeadBlock ex_head) [Node Merge [Node ImageBlock [ex_image], Node TextBlock [ex_text]]]])
   \<and> assemble [ex_text] (map OHead [ex_head]) [] =
     (Inr (Graph [ex_text] [Node (HeadBlock ex_head) [Node TextBlock [ex_text]]]),
      [BlockCall TextBlock [ex_text], BlockCall (HeadBlock ex_head) [Node TextBlock [ex_text]]])
   \<and> assemble [InputNode Input (ex_adapter 0)] (map OHead [ex_head]) [] = (Inl IndexError, [])"
proof -
  have m2: "middle_nodes [ex_image, ex_text] = [Node ImageBlock [ex_image], Node TextBlock [ex_text]]"
    by (simp add: middle_nodes_def List.map_filter_def ex_image_def ex_text_def)
  have e2: "encoder_calls [ex_image, ex_text] = [BlockCall ImageBlock [ex_image], BlockCall TextBlock [ex_text]]"
    by (simp add: encoder_calls_def List.map_filter_def ex_image_def ex_text_def)
  have m1: "middle_nodes [ex_text] = [Node TextBlock [ex_text]]"
    by (simp add: middle_nodes_def List.map_filter_def ex_text_def)
  have e1: "encoder_calls [ex_text] = [BlockCall TextBlock [ex_text]]"
    by (simp add: encoder_calls_def List.map_filter_def ex_text_def)
  have m0: "middle_nodes [InputNode Input (ex_adapter 0)] = []"
    by (simp add: middle_nodes_def List.map_filter_def)
  show ?thesis
    using assemble_merge_cases [of "[ex_image, ex_text]" "[ex_head]" "[]"]
      assemble_merge_cases [of "[ex_text]" "[ex_head]" "[]"]
      assemble_merge_cases [of "[InputNode Input (ex_adapter 0)]" "[ex_head]" "[]"]
    by (simp add: m2 e2 m1 e1 m0 head_nodes_def head_calls_def)
qed

text \<open>
  Claim C4 as stated fails: with one image input, one bare head and the tuner name
  \<^verbatim>\<open>unknown\<close> the constructor raises the tuner's ValueError, but only after the graph has
  been assembled: an ImageBlock and the head have been instantiated and applied.
\<close>

theorem unknown_tuner_counterexample:
  "init (Leaf ex_image) (Leaf (OHead ex_head)) ex_options (TunerName ''unknown'') None [] =
     (Inl (ValueError (tuner_message ''unknown'')),
      [BlockCall ImageBlock [ex_image], BlockCall (HeadBlock ex_head) [Node ImageBlock [ex_image]]])"
  by (simp add: init_def seeding_def build_graph_def assemble_def apply_default_def ex_image_def
      get_tuner_class_def TUNER_CLASSES_def Graph_def Let_def)

text \<open>
  Claim C4, amended. For every string that is not one of the four tuner names,
  \<^verbatim>\<open>get_tuner_class\<close> raises a ValueError whose message quotes the four valid names. The
  constructor resolves the tuner after seeding and after \<^verbatim>\<open>_build_graph\<close>: when the
  seeding or the graph construction fails its error is the one raised, and otherwise the
  constructor raises the tuner's ValueError with exactly the calls the seeding and the graph
  construction made, before any tuner is instantiated. In every case the construction
  fails.
\<close>

theorem unknown_tuner_rejected:
  assumes "t \<notin> {''greedy'', ''bayesian'', ''hyperband'', ''random''}"
  shows "get_tuner_class t = Inl (ValueError (tuner_message t))
       \<and> sublist (dq @ ''greedy'' @ dq) (tuner_message t)
       \<and> sublist (dq @ ''random'' @ dq) (tuner_message t)
       \<and> sublist (dq @ ''hyperband'' @ dq) (tuner_message t)
       \<and> sublist (dq @ ''bayesian'' @ dq) (tuner_message t)
       \<and> init inputs0 outputs0 opts (TunerName t) seed0 w =
           (case seeding seed0 w of
              (Inl e, w1) \<Rightarrow> (Inl e, w1)
            | (Inr u, w1) \<Rightarrow>
                (case build_graph (flatten inputs0) (flatten outputs0) w1 of
                   (Inl e, w2) \<Rightarrow> (Inl e, w2)
                 | (Inr r, w2) \<Rightarrow> (Inl (ValueError (tuner_message t)), w2)))
       \<and> isl (fst (init inputs0 outputs0 opts (TunerName t) seed0 w))"
proof -
  have g: "get_tuner_class t = Inl (ValueError (tuner_message t))"
    using assms by (simp add: get_tuner_class_def TUNER_CLASSES_def)
  have e1: "tuner_message t =
      (''The value '' @ t @ '' passed for argument tuner is invalid, expected one of '')
      @ (dq @ ''greedy'' @ dq)
      @ ('', '' @ dq @ ''random'' @ dq @ '', '' @ dq @ ''hyperband'' @ dq @ '', '' @ dq @ ''bayesian'' @ dq @ ''.'')"
    by (simp add: tuner_message_def)
  have s1: "sublist (dq @ ''greedy'' @ dq) (tuner_message t)"
    by (simp only: e1 sublist_appendI)
  have e2: "tuner_message t =
      (''The value '' @ t @ '' passed for argument tuner is invalid, expected one of ''
        @ dq @ ''greedy'' @ dq @ '', '')
      @ (dq @ ''random'' @ dq)
      @ ('', '' @ dq @ ''hyperband'' @ dq @ '', '' @ dq @ ''bayesian'' @ dq @ ''.'')"
    by (simp add: tuner_message_def)
  have s2: "sublist (dq @ ''random'' @ dq) (tuner_message t)"
    by (simp only: e2 sublist_appendI)
  have e3: "tuner_message t =
      (''The value '' @ t @ '' passed for argument tuner is invalid, expected one of ''
        @ dq @ ''greedy'' @ dq @ '', '' @ dq @ ''random'' @ dq @ '', '')
      @ (dq @ ''hyperband'' @ dq)
      @ ('', '' @ dq @ ''bayesian'' @ dq @ ''.'')"
    by (simp add: tuner_message_def)
  have s3: "sublist (dq @ ''hyperband'' @ dq) (tuner_message t)"
    by (simp only: e3 sublist_appendI)
  have e4: "tuner_message t =
      (''The value '' @ t @ '' passed for argument tuner is invalid, expected one of ''
        @ dq @ ''greedy'' @ dq @ '', '' @ dq @ ''random'' @ dq @ '', '' @ dq @ ''hyperband'' @ dq @ '', '')
      @ (dq @ ''bayesian'' @ dq)
      @ ''.''"
    by (simp add: tuner_message_def)
  have s4: "sublist (dq @ ''bayesian'' @ dq) (tuner_message t)"
    by (simp only: e4 sublist_appendI)
  have i: "init inputs0 outputs0 opts (TunerName t) seed0 w =
           (case seeding seed0 w of
              (Inl e, w1) \<Rightarrow> (Inl e, w1)
            | (Inr u, w1) \<Rightarrow>
                (case build_graph (flatten inputs0) (flatten outputs0) w1 of
                   (Inl e, w2) \<Rightarrow> (Inl e, w2)
                 | (Inr r, w2) \<Rightarrow> (Inl (ValueError (tuner_message t)), w2)))"
    by (simp add: init_def g split: prod.splits sum.splits)
  have f: "isl (fst (init inputs0 outputs0 opts (TunerName t) seed0 w))"
    by (simp add: i split: prod.splits sum.splits)
  show ?thesis
    using g s1 s2 s3 s4 i f by blast
qed

theorem unknown_tuner_rejected_witness:
  "''unknown'' \<notin> {''greedy'', ''bayesian'', ''hyperband'', ''random''}
   \<and> get_tuner_class ''unknown'' = Inl (ValueError (tuner_message ''unknown''))
   \<and> sublist (dq @ ''greedy'' @ dq) (tuner_message ''unknown'')
   \<and> init (Leaf ex_image) (Leaf (ONode (Node (HeadBlock ex_head) [ex_image]))) ex_options
         (TunerName ''unknown'') None [] = (Inl (ValueError (tuner_message ''unknown'')), [])"
proof -
  have h: "''unknown'' \<notin> {''greedy'', ''bayesian'', ''hyperband'', ''random''}" by simp
  show ?thesis
    using h unknown_tuner_rejected [OF h, of "Leaf ex_image"
        "Leaf (ONode (Node (HeadBlock ex_head) [ex_image]))" ex_options None "[]"]
    by (simp add: build_graph_def seeding_def)
qed

lemma first_in_block_head_nodes:
  "map_err first_in_block (head_nodes hs n) = Inr (map HeadBlock hs)"
  by (induction hs) (simp_all add: head_nodes_def)

lemma block_get_adapter_heads:
  "map_err block_get_adapter (map HeadBlock hs) = Inr (map head_adapter hs)"
  by (induction hs) simp_all

text \<open>
  Claim C6. In inferred mode (at least one declared output, all of them bare heads; an
  empty list of outputs passes the first test of \<^verbatim>\<open>_build_graph\<close> and is handled as
  functional mode) with at least one recognised input, \<^verbatim>\<open>_build_graph\<close> calls exactly one
  default block per recognised input, in order, merges when needed, applies every head to
  the combined node and builds the graph from the original inputs and the new output
  nodes. The constructor stores those output nodes as \<^verbatim>\<open>self.outputs\<close>, so that they are the
  outputs of the graph the tuner receives, and takes the heads from them; it does so for
  every seed that is false or accepted by \<^verbatim>\<open>np.random.seed\<close>, and fails in the seeding
  with no block called for any other seed.
\<close>

theorem inferred_mode_assembly:
  assumes "flatten outputs0 = map OHead hs" and "hs \<noteq> []"
    and "middle_nodes (flatten inputs0) \<noteq> []"
  shows "build_graph (flatten inputs0) (flatten outputs0) w =
           (Inr (Graph (flatten inputs0) (head_nodes hs (combined (flatten inputs0))),
                 head_nodes hs (combined (flatten inputs0))),
            w @ encoder_calls (flatten inputs0) @ merge_calls (flatten inputs0)
              @ head_calls hs (combined (flatten inputs0)))
       \<and> encoder_calls (flatten inputs0) =
           map (\<lambda>n. BlockCall (the (encoder n)) [n]) (filter (\<lambda>n. encoder n \<noteq> None) (flatten inputs0))
       \<and> (resolve_tuner tuner0 = Inr c \<and> map_err node_get_adapter (flatten inputs0) = Inr ias \<longrightarrow>
            init inputs0 outputs0 opts tuner0 seed0 w =
              (case seeding seed0 w of
                 (Inl e, w1) \<Rightarrow> (Inl e, w1)
               | (Inr u, w1) \<Rightarrow>
                   (Inr \<lparr>inputs = flatten inputs0,
                         outputs = head_nodes hs (combined (flatten inputs0)),
                         seed = seed0,
                         tuner = \<lparr>tuner_cls = c,
                           hypermodel = Graph (flatten inputs0) (head_nodes hs (combined (flatten inputs0))),
                           tuner_options = opts, tuner_seed = seed0\<rparr>,
                         split_dataset = False,
                         heads = map HeadBlock hs,
                         input_adapters = ias,
                         output_adapters = map head_adapter hs\<rparr>,
                    w1 @ encoder_calls (flatten inputs0) @ merge_calls (flatten inputs0)
                      @ head_calls hs (combined (flatten inputs0)) @ [TunerNew c])))
       \<and> (resolve_tuner tuner0 = Inr c \<and> map_err node_get_adapter (flatten inputs0) = Inr ias
            \<and> (\<not> seed_truthy seed0 \<or> seed_in_range (the seed0)) \<longrightarrow>
            init inputs0 outputs0 opts tuner0 seed0 w =
              (Inr \<lparr>inputs = flatten inputs0,
                    outputs = head_nodes hs (combined (flatten inputs0)),
                    seed = seed0,
                    tuner = \<lparr>tuner_cls = c,
                      hypermodel = Graph (flatten inputs0) (head_nodes hs (combined (flatten inputs0))),
                      tuner_options = opts, tuner_seed = seed0\<rparr>,
                    split_dataset = False,
                    heads = map HeadBlock hs,
                    input_adapters = ias,
                    output_adapters = map head_adapter hs\<rparr>,
               w @ (if seed_truthy seed0 then [NpRandomSeed (the seed0), TfRandomSetSeed (the seed0)] else [])
                 @ encoder_calls (flatten inputs0) @ merge_calls (flatten inputs0)
                 @ head_calls hs (combined (flatten inputs0)) @ [TunerNew c]))
       \<and> g_outputs (Graph (flatten inputs0) (head_nodes hs (combined (flatten inputs0)))) =
           head_nodes hs (combined (flatten inputs0))"
proof -
  have notNode: "\<not> list_all is_Node (flatten outputs0)"
    using assms(1,2) by (cases hs) simp_all
  have allHead: "list_all is_Head (flatten outputs0)"
    using assms(1) by (simp add: list_all_iff)
  have bg: "build_graph (flatten inputs0) (flatten outputs0) w =
           (Inr (Graph (flatten inputs0) (head_nodes hs (combined (flatten inputs0))),
                 head_nodes hs (combined (flatten inputs0))),
            w @ encoder_calls (flatten inputs0) @ merge_calls (flatten inputs0)
              @ head_calls hs (combined (flatten inputs0)))" for w
    using notNode allHead assms(3)
    by (simp add: build_graph_def assemble_heads [of _ hs, folded assms(1)] Graph_def)
  have ec: "encoder_calls (flatten inputs0) =
           map (\<lambda>n. BlockCall (the (encoder n)) [n]) (filter (\<lambda>n. encoder n \<noteq> None) (flatten inputs0))"
    by (induction "flatten inputs0") (auto simp: encoder_calls_def List.map_filter_def)
  have i: "resolve_tuner tuner0 = Inr c \<and> map_err node_get_adapter (flatten inputs0) = Inr ias \<longrightarrow>
            init inputs0 outputs0 opts tuner0 seed0 w =
              (case seeding seed0 w of
                 (Inl e, w1) \<Rightarrow> (Inl e, w1)
               | (Inr u, w1) \<Rightarrow>
                   (Inr \<lparr>inputs = flatten inputs0,
                         outputs = head_nodes hs (combined (flatten inputs0)),
                         seed = seed0,
                         tuner = \<lparr>tuner_cls = c,
                           hypermodel = Graph (flatten inputs0) (head_nodes hs (combined (flatten inputs0))),
                           tuner_options = opts, tuner_seed = seed0\<rparr>,
                         split_dataset = False,
                         heads = map HeadBlock hs,
                         input_adapters = ias,
                         output_adapters = map head_adapter hs\<rparr>,
                    w1 @ encoder_calls (flatten inputs0) @ merge_calls (flatten inputs0)
                      @ head_calls hs (combined (flatten inputs0)) @ [TunerNew c]))"
    by (simp add: init_def bg first_in_block_head_nodes block_get_adapter_heads Let_def
        split: prod.splits sum.splits)
  have j: "resolve_tuner tuner0 = Inr c \<and> map_err node_get_adapter (flatten inputs0) = Inr ias
            \<and> (\<not> seed_truthy seed0 \<or> seed_in_range (the seed0)) \<longrightarrow>
            init inputs0 outputs0 opts tuner0 seed0 w =
              (Inr \<lparr>inputs = flatten inputs0,
                    outputs = head_nodes hs (combined (flatten inputs0)),
                    seed = seed0,
                    tuner = \<lparr>tuner_cls = c,
                      hypermodel = Graph (flatten inputs0) (head_nodes hs (combined (flatten inputs0))),
                      tuner_options = opts, tuner_seed = seed0\<rparr>,
                    split_dataset = False,
                    heads = map HeadBlock hs,
                    input_adapters = ias,
                    output_adapters = map head_adapter hs\<rparr>,
               w @ (if seed_truthy seed0 then [NpRandomSeed (the seed0), TfRandomSetSeed (the seed0)] else [])
                 @ encoder_calls (flatten inputs0) @ merge_calls (flatten inputs0)
                 @ head_calls hs (combined (flatten inputs0)) @ [TunerNew c])"
  proof (intro impI, elim conjE)
    assume a: "resolve_tuner tuner0 = Inr c" "map_err node_get_adapter (flatten inputs0) = Inr ias"
      "\<not> seed_truthy seed0 \<or> seed_in_range (the seed0)"
    have sd: "seeding seed0 w =
        (Inr (), w @ (if seed_truthy seed0 then [NpRandomSeed (the seed0), TfRandomSetSeed (the seed0)] else []))"
      using a(3) by (auto simp: seeding_cases)
    from i a(1,2) show "init inputs0 outputs0 opts tuner0 seed0 w =
              (Inr \<lparr>inputs = flatten inputs0,
                    outputs = head_nodes hs (combined (flatten inputs0)),
                    seed = seed0,
                    tuner = \<lparr>tuner_cls = c,
                      hypermodel = Graph (flatten inputs0) (head_nodes hs (combined (flatten inputs0))),
                      tuner_options = opts, tuner_seed = seed0\<rparr>,
                    split_dataset = False,
                    heads = map HeadBlock hs,
                    input_adapters = ias,
                    output_adapters = map head_adapter hs\<rparr>,
               w @ (if seed_truthy seed0 then [NpRandomSeed (the seed0), TfRandomSetSeed (the seed0)] else [])
                 @ encoder_calls (flatten inputs0) @ merge_calls (flatten inputs0)
                 @ head_calls hs (combined (flatten inputs0)) @ [TunerNew c])"
      by (simp add: sd)
  qed
  have go: "g_outputs (Graph (flatten inputs0) (head_nodes hs (combined (flatten inputs0)))) =
           head_nodes hs (combined (flatten inputs0))"
    by (simp add: Graph_def)
  show ?thesis
    using bg ec i j go by blast
qed

theorem inferred_mode_assembly_witness:
  "flatten (Leaf (OHead ex_head)) = map OHead [ex_head] \<and> [ex_head] \<noteq> []
   \<and> middle_nodes (flatten (Tuple [Leaf ex_image, Leaf ex_text])) \<noteq> []
   \<and> resolve_tuner (TunerName ''greedy'') = Inr Greedy
   \<and> map_err node_get_adapter (flatten (Tuple [Leaf ex_image, Leaf ex_text])) = Inr [ex_adapter 0, ex_adapter 1]
   \<and> init (Tuple [Leaf ex_image, Leaf ex_text]) (Leaf (OHead ex_head)) ex_options (TunerName ''greedy'') None [] =
       (Inr \<lparr>inputs = [ex_image, ex_text],
             outputs = [Node (HeadBlock ex_head) [Node Merge [Node ImageBlock [ex_image], Node TextBlock [ex_text]]]],
             seed = None,
             tuner = \<lparr>tuner_cls = Greedy,
               hypermodel = Graph [ex_image, ex_text]
                 [Node (HeadBlock ex_head) [Node Merge [Node ImageBlock [ex_image], Node TextBlock [ex_text]]]],
               tuner_options = ex_options, tuner_seed = None\<rparr>,
             split_dataset = False,
             heads = [HeadBlock ex_head],
             input_adapters = [ex_adapter 0, ex_adapter 1],
             output_adapters = [ex_adapter 2]\<rparr>,
        [BlockCall ImageBlock [ex_image], BlockCall TextBlock [ex_text],
         BlockCall Merge [Node ImageBlock [ex_image], Node TextBlock [ex_text]],
         BlockCall (HeadBlock ex_head) [Node Merge [Node ImageBlock [ex_image], Node TextBlock [ex_text]]],
         TunerNew Greedy])"
proof -
  have m: "middle_nodes [ex_image, ex_text] = [Node ImageBlock [ex_image], Node TextBlock [ex_text]]"
    by (simp add: middle_nodes_def List.map_filter_def ex_image_def ex_text_def)
  have e: "encoder_calls [ex_image, ex_text] = [BlockCall ImageBlock [ex_image], BlockCall TextBlock [ex_text]]"
    by (simp add: encoder_calls_def List.map_filter_def ex_image_def ex_text_def)
  have h1: "flatten (Leaf (OHead ex_head)) = map OHead [ex_head]" by simp
  have h2: "[ex_head] \<noteq> []" by simp
  have h3: "middle_nodes (flatten (Tuple [Leaf ex_image, Leaf ex_text])) \<noteq> []" by (simp add: m)
  have h4: "resolve_tuner (TunerName ''greedy'') = Inr Greedy"
    by (simp add: get_tuner_class_def TUNER_CLASSES_def)
  have h5: "map_err node_get_adapter (flatten (Tuple [Leaf ex_image, Leaf ex_text])) = Inr [ex_adapter 0, ex_adapter 1]"
    by (simp add: ex_image_def ex_text_def)
  show ?thesis
    using h1 h2 h3 h4 h5
      inferred_mode_assembly [OF h1 h2 h3, where c = Greedy and ias = "[ex_adapter 0, ex_adapter 1]"
        and opts = ex_options and ?tuner0.0 = "TunerName ''greedy''" and ?seed0.0 = None and w = "[]"]
    by (simp add: m e combined_def merge_calls_def head_nodes_def head_calls_def seeding_def ex_head_def)
qed

text \<open>
  Claim C10 as stated fails: the seeds -1 and 2**32 are nonzero, hence truthy, but
  \<^verbatim>\<open>np.random.seed\<close> refuses them with a ValueError. No generator is seeded,
  \<^verbatim>\<open>tf.random.set_seed\<close> is never called and the construction fails before the graph is
  built.
\<close>

theorem seeding_counterexample:
  "seed_truthy (Some (- 1))
   \<and> init (Leaf ex_image) (Leaf (OHead ex_head)) ex_options (TunerName ''greedy'') (Some (- 1)) [] =
       (Inl (ValueError ''Seed must be between 0 and 2**32 - 1''), [])
   \<and> seed_truthy (Some 4294967296)
   \<and> init (Leaf ex_image) (Leaf (OHead ex_head)) ex_options (TunerName ''greedy'') (Some 4294967296) [] =
       (Inl (ValueError ''Seed must be between 0 and 2**32 - 1''), [])"
  by (simp add: init_def seeding_def seed_in_range_def)

text \<open>
  Claim C10, amended. The constructor seeds both generators (\<^verbatim>\<open>np.random.seed\<close>, then
  \<^verbatim>\<open>tf.random.set_seed\<close>, once each, with the seed) if and only if the seed is truthy and
  \<^verbatim>\<open>np.random.seed\<close> accepts it, that is an integer from 1 to 2**32 - 1, however the
  construction ends afterwards. A truthy seed outside that range makes the constructor fail
  with the ValueError of \<^verbatim>\<open>np.random.seed\<close> and no call added. With seed 0 the
  constructor makes the same calls and succeeds or fails exactly as with no seed. Whenever
  the construction succeeds the seed is stored in \<^verbatim>\<open>self.seed\<close> and handed to the tuner
  unchanged.
\<close>

theorem seeding_iff_seed_accepted:
  "filter is_seed_call (snd (init inputs0 outputs0 opts tuner0 seed0 w)) =
     filter is_seed_call w
       @ (if seed_truthy seed0 \<and> seed_in_range (the seed0)
          then [NpRandomSeed (the seed0), TfRandomSetSeed (the seed0)] else [])
   \<and> (seed_truthy seed0 \<longleftrightarrow> (\<exists>n. seed0 = Some n \<and> n \<noteq> 0))
   \<and> (seed_truthy seed0 \<and> seed_in_range (the seed0) \<longleftrightarrow> (\<exists>n. seed0 = Some n \<and> 1 \<le> n \<and> n \<le> 2 ^ 32 - 1))
   \<and> (seed_truthy seed0 \<and> \<not> seed_in_range (the seed0) \<longrightarrow>
        init inputs0 outputs0 opts tuner0 seed0 w =
          (Inl (ValueError ''Seed must be between 0 and 2**32 - 1''), w))
   \<and> snd (init inputs0 outputs0 opts tuner0 (Some 0) w) = snd (init inputs0 outputs0 opts tuner0 None w)
   \<and> isl (fst (init inputs0 outputs0 opts tuner0 (Some 0) w)) = isl (fst (init inputs0 outputs0 opts tuner0 None w))
   \<and> (case init inputs0 outputs0 opts tuner0 seed0 w of
        (Inl e, w') \<Rightarrow> True
      | (Inr m, w') \<Rightarrow> seed m = seed0 \<and> tuner_seed (tuner m) = seed0)"
proof -
  have a: "filter is_seed_call (snd (init inputs0 outputs0 opts tuner0 seed0 w)) =
     filter is_seed_call w
       @ (if seed_truthy seed0 \<and> seed_in_range (the seed0)
          then [NpRandomSeed (the seed0), TfRandomSetSeed (the seed0)] else [])"
    by (simp add: init_trace seeding_cases)
  have b: "seed_truthy seed0 \<longleftrightarrow> (\<exists>n. seed0 = Some n \<and> n \<noteq> 0)"
    by (cases seed0) simp_all
  have r: "seed_truthy seed0 \<and> seed_in_range (the seed0) \<longleftrightarrow> (\<exists>n. seed0 = Some n \<and> 1 \<le> n \<and> n \<le> 2 ^ 32 - 1)"
    by (cases seed0) (auto simp: seed_in_range_def)
  have f: "seed_truthy seed0 \<and> \<not> seed_in_range (the seed0) \<longrightarrow>
        init inputs0 outputs0 opts tuner0 seed0 w =
          (Inl (ValueError ''Seed must be between 0 and 2**32 - 1''), w)"
    by (simp add: init_seeding_fails seeding_cases)
  have s: "seeding (Some 0) w = seeding None w"
    by (simp add: seeding_def)
  have c: "snd (init inputs0 outputs0 opts tuner0 (Some 0) w) = snd (init inputs0 outputs0 opts tuner0 None w)"
    by (simp add: init_def s Let_def split: prod.splits sum.splits)
  have d: "isl (fst (init inputs0 outputs0 opts tuner0 (Some 0) w)) = isl (fst (init inputs0 outputs0 opts tuner0 None w))"
    by (simp add: init_def s Let_def split: prod.splits sum.splits)
  have e: "(case init inputs0 outputs0 opts tuner0 seed0 w of
        (Inl e, w') \<Rightarrow> True
      | (Inr m, w') \<Rightarrow> seed m = seed0 \<and> tuner_seed (tuner m) = seed0)"
    by (auto simp: init_def Let_def split: prod.splits sum.splits)
  show ?thesis
    using a b r f c d e by blast
qed

theorem seeding_iff_seed_accepted_witness:
  "init (Leaf ex_image) (Leaf (OHead ex_head)) ex_options (TunerName ''greedy'') (Some 0) [] =
     (Inr \<lparr>inputs = [ex_image],
           outputs = [Node (HeadBlock ex_head) [Node ImageBlock [ex_image]]],
           seed = Some 0,
           tuner = \<lparr>tuner_cls = Greedy,
             hypermodel = Graph [ex_image] [Node (HeadBlock ex_head) [Node ImageBlock [ex_image]]],
             tuner_options = ex_options, tuner_seed = Some 0\<rparr>,
           split_dataset = False,
           heads = [HeadBlock ex_head],
           input_adapters = [ex_adapter 0],
           output_adapters = [ex_adapter 2]\<rparr>,
      [BlockCall ImageBlock [ex_image],
       BlockCall (HeadBlock ex_head) [Node ImageBlock [ex_image]],
       TunerNew Greedy])
   \<and> filter is_seed_call (snd (init (Leaf ex_image) (Leaf (OHead ex_head)) ex_options (TunerName ''greedy'') (Some 7) [])) =
       [NpRandomSeed 7, TfRandomSetSeed 7]
   \<and> filter is_seed_call (snd (init (Leaf ex_image) (Leaf (OHead ex_head)) ex_options (TunerName ''greedy'') (Some 0) [])) = []
   \<and> seed_truthy (Some 4294967296) \<and> \<not> seed_in_range (the (Some 4294967296))
   \<and> init (Leaf ex_image) (Leaf (OHead ex_head)) ex_options (TunerName ''greedy'') (Some 4294967296) [] =
       (Inl (ValueError ''Seed must be between 0 and 2**32 - 1''), [])"
proof -
  have i: "init (Leaf ex_image) (Leaf (OHead ex_head)) ex_options (TunerName ''greedy'') (Some 0) [] =
     (Inr \<lparr>inputs = [ex_image],
           outputs = [Node (HeadBlock ex_head) [Node ImageBlock [ex_image]]],
           seed = Some 0,
           tuner = \<lparr>tuner_cls = Greedy,
             hypermodel = Graph [ex_image] [Node (HeadBlock ex_head) [Node ImageBlock [ex_image]]],
             tuner_options = ex_options, tuner_seed = Some 0\<rparr>,
           split_dataset = False,
           heads = [HeadBlock ex_head],
           input_adapters = [ex_adapter 0],
           output_adapters = [ex_adapter 2]\<rparr>,
      [BlockCall ImageBlock [ex_image],
       BlockCall (HeadBlock ex_head) [Node ImageBlock [ex_image]],
       TunerNew Greedy])"
    by (simp add: init_def seeding_def build_graph_def assemble_def apply_default_def ex_image_def
        get_tuner_class_def TUNER_CLASSES_def Graph_def Let_def ex_head_def)
  have h: "seed_truthy (Some 4294967296) \<and> \<not> seed_in_range (the (Some 4294967296))"
    by (simp add: seed_in_range_def)
  show ?thesis
    using i h
      seeding_iff_seed_accepted [where ?inputs0.0 = "Leaf ex_image" and ?outputs0.0 = "Leaf (OHead ex_head)"
        and opts = ex_options and ?tuner0.0 = "TunerName ''greedy''" and ?seed0.0 = "Some 7" and w = "[]"]
      seeding_iff_seed_accepted [where ?inputs0.0 = "Leaf ex_image" and ?outputs0.0 = "Leaf (OHead ex_head)"
        and opts = ex_options and ?tuner0.0 = "TunerName ''greedy''" and ?seed0.0 = "Some 0" and w = "[]"]
      seeding_iff_seed_accepted [where ?inputs0.0 = "Leaf ex_image" and ?outputs0.0 = "Leaf (OHead ex_head)"
        and opts = ex_options and ?tuner0.0 = "TunerName ''greedy''" and ?seed0.0 = "Some 4294967296" and w = "[]"]
    by (simp add: seed_in_range_def)
qed

subsection \<open>The data pipeline\<close>

lemmas ex_defs = ex_model_def ex_adapter_def to_dataset_def ex_x_def ex_y_def ex_processed_def
  ex_fit_calls_def

lemmas pipeline_defs = process_xy_def check_data_format_def collect_shapes_def adapt_def
  ds_zip_def zip_rows_def unpack2_def destructure_def split_components_def ds_map_def
  dataset_shape_def lambda_x_def lambda_y_def lambda_first_def lambda_index_def lambda_wrap_def

lemma ex_process_xy:
  "process_xy ex_model ex_x ex_y True False False [] = (Inr ex_processed, ex_fit_calls)"
  by (simp add: pipeline_defs ex_defs upt_conv_Cons)

lemma process_xy_check_fails:
  "check_data_format self x y validation predict = Inl e \<Longrightarrow>
   process_xy self x y fitting validation predict w = (Inl e, w)"
  by (simp add: process_xy_def)

lemma process_xy_Inr_check:
  "process_xy self x y fitting validation predict w = (Inr d, w1) \<Longrightarrow>
   check_data_format self x y validation predict = Inr ()"
  by (cases "check_data_format self x y validation predict") (simp_all add: process_xy_def)

lemma check_split_dataset [simp]:
  "check_data_format (self\<lparr>split_dataset := b\<rparr>) x y validation predict =
   check_data_format self x y validation predict"
  by (simp add: check_data_format_def cong: sum.case_cong prod.case_cong if_cong)

lemma process_xy_split_dataset [simp]:
  "process_xy (self\<lparr>split_dataset := b\<rparr>) x y fitting validation predict w =
   process_xy self x y fitting validation predict w"
  by (simp add: process_xy_def destructure_def cong: sum.case_cong prod.case_cong list.case_cong if_cong)

lemma check_mismatch:
  assumes "\<not> (is_Dataset x \<and> y \<noteq> Leaf PyNone)"
    and "collect_shapes x y predict = Inr (x_shapes, y_shapes)"
    and "length x_shapes \<noteq> length (inputs self)
         \<or> (\<not> predict \<and> length y_shapes \<noteq> length (outputs self))"
  shows "check_data_format self x y validation predict =
           Inl (ValueError (mismatch_message self validation x_shapes y_shapes))"
  using assms by (auto simp: check_data_format_def mismatch_message_def)

lemma fit_training_check_fails:
  assumes "check_data_format self x y False False = Inl e"
    and "validation_truthy vd \<or> split_truthy vs"
  shows "fit self x y bs ep vs vd w = (Inl e, self, w)"
  using assms by (auto simp: fit_def prepare_data_def)

lemma fit_validation_check_fails:
  assumes "process_xy self x0 y0 True False False w = (Inr d, w1)"
    and "validation_truthy vd" and "validation_xy vd = Inr (x, y)"
    and "check_data_format self x y True False = Inl e"
  shows "fit self x0 y0 bs ep vs vd w = (Inl e, self\<lparr>split_dataset := False\<rparr>, w1)"
  using assms process_xy_Inr_check [OF assms(1)]
  by (simp add: fit_def prepare_data_def process_xy_check_fails Let_def)

text \<open>
  Claim C7. When \<^verbatim>\<open>validation_data\<close> and \<^verbatim>\<open>validation_split\<close> are both false (absent,
  zero or empty), \<^verbatim>\<open>_prepare_data\<close> and hence \<^verbatim>\<open>fit\<close> raise the ValueError of the first
  test: the object is unchanged and no call has been made, so no data has been converted
  and no adapter fitted.
\<close>

theorem missing_validation_raises:
  assumes "\<not> validation_truthy validation_data" and "\<not> split_truthy validation_split"
  shows "prepare_data self x y validation_data validation_split w =
           (Inl (ValueError ''Either validation_data or validation_split should be provided.''), self, w)
       \<and> fit self x y batch_size epochs validation_split validation_data w =
           (Inl (ValueError ''Either validation_data or validation_split should be provided.''), self, w)"
  using assms by (simp add: fit_def prepare_data_def)

theorem missing_validation_raises_witness:
  "\<not> validation_truthy (VTuple []) \<and> \<not> split_truthy (Some 0)
   \<and> fit ex_model ex_x ex_y 32 None (Some 0) (VTuple []) [] =
       (Inl (ValueError ''Either validation_data or validation_split should be provided.''), ex_model, [])
   \<and> fit ex_model ex_x ex_y 32 None None VNone [] =
       (Inl (ValueError ''Either validation_data or validation_split should be provided.''), ex_model, [])"
  using missing_validation_raises [of "VTuple []" "Some 0" ex_model ex_x ex_y "[]" 32 None]
    missing_validation_raises [of VNone None ex_model ex_x ex_y "[]" 32 None]
  by simp

text \<open>
  Claim C1, amended. Whenever \<^verbatim>\<open>_process_xy\<close> is given an (x, y) pair whose counts differ
  from the declared inputs or (outside predict mode) outputs, it raises the ValueError
  naming the side, the expected and the actual count before any adapter is called on that
  pair: the calls made so far are unchanged. Hence \<^verbatim>\<open>evaluate\<close> and \<^verbatim>\<open>fit\<close> (training
  pair) fail with no call made, and \<^verbatim>\<open>predict\<close> on a dataset fails after \<^verbatim>\<open>_get_x\<close> has
  printed, with no adapter called. A mismatch in the validation pair of \<^verbatim>\<open>fit\<close> is raised
  with the words \<^verbatim>\<open>in validation_data\<close>, after the training pair has been adapted.
\<close>

theorem arity_checked_before_adapters:
  assumes "\<not> (is_Dataset x \<and> y \<noteq> Leaf PyNone)"
    and "collect_shapes x y predict = Inr (x_shapes, y_shapes)"
    and "length x_shapes \<noteq> length (inputs self)
         \<or> (\<not> predict \<and> length y_shapes \<noteq> length (outputs self))"
  shows "process_xy self x y fitting validation predict w =
           (Inl (ValueError (mismatch_message self validation x_shapes y_shapes)), w)
       \<and> (\<not> predict \<longrightarrow>
            evaluate_dataset self x y batch_size w =
              (Inl (ValueError (mismatch_message self False x_shapes y_shapes)), w))
       \<and> (\<not> predict \<and> (validation_truthy validation_data \<or> split_truthy validation_split) \<longrightarrow>
            fit self x y batch_size epochs validation_split validation_data w =
              (Inl (ValueError (mismatch_message self False x_shapes y_shapes)), self, w))
       \<and> (\<not> predict \<and> validation_truthy validation_data \<and> validation_xy validation_data = Inr (x, y)
            \<and> process_xy self x0 y0 True False False w = (Inr d, w1) \<longrightarrow>
            fit self x0 y0 batch_size epochs validation_split validation_data w =
              (Inl (ValueError (mismatch_message self True x_shapes y_shapes)),
               self\<lparr>split_dataset := False\<rparr>, w1))
       \<and> (predict \<and> y = Leaf PyNone \<and> x = Leaf (Ds x1) \<and> get_x self d0 w = (Inr x1, w1) \<longrightarrow>
            predict_dataset self (Leaf (Ds d0)) batch_size w =
              (Inl (ValueError (mismatch_message self False x_shapes y_shapes)), w1)
            \<and> w1 = w @ [Print (str (length (top_level (dataset_shape d0))))])"
proof -
  note c = check_mismatch [OF assms]
  have p: "process_xy self x y fitting validation predict w =
           (Inl (ValueError (mismatch_message self validation x_shapes y_shapes)), w)"
    for fitting validation w
    by (rule process_xy_check_fails [OF c])
  have e: "\<not> predict \<longrightarrow>
            evaluate_dataset self x y batch_size w =
              (Inl (ValueError (mismatch_message self False x_shapes y_shapes)), w)"
    using p [of False False w] by (cases predict) (simp_all add: evaluate_dataset_def)
  have f: "\<not> predict \<and> (validation_truthy validation_data \<or> split_truthy validation_split) \<longrightarrow>
            fit self x y batch_size epochs validation_split validation_data w =
              (Inl (ValueError (mismatch_message self False x_shapes y_shapes)), self, w)"
    using fit_training_check_fails [of self x y _ validation_data validation_split] c [of False]
    by (cases predict) auto
  have v: "\<not> predict \<and> validation_truthy validation_data \<and> validation_xy validation_data = Inr (x, y)
            \<and> process_xy self x0 y0 True False False w = (Inr d, w1) \<longrightarrow>
            fit self x0 y0 batch_size epochs validation_split validation_data w =
              (Inl (ValueError (mismatch_message self True x_shapes y_shapes)),
               self\<lparr>split_dataset := False\<rparr>, w1)"
    using fit_validation_check_fails [of self x0 y0 w d w1 validation_data x y] c [of True]
    by (cases predict) auto
  have g: "predict \<and> y = Leaf PyNone \<and> x = Leaf (Ds x1) \<and> get_x self d0 w = (Inr x1, w1) \<longrightarrow>
            predict_dataset self (Leaf (Ds d0)) batch_size w =
              (Inl (ValueError (mismatch_message self False x_shapes y_shapes)), w1)
            \<and> w1 = w @ [Print (str (length (top_level (dataset_shape d0))))]"
  proof (intro impI, elim conjE)
    assume a: predict "y = Leaf PyNone" "x = Leaf (Ds x1)" "get_x self d0 w = (Inr x1, w1)"
    have "snd (get_x self d0 w) = w @ [Print (str (length (top_level (dataset_shape d0))))]"
      by (simp add: get_x_def Let_def)
    with a(4) have w1: "w1 = w @ [Print (str (length (top_level (dataset_shape d0))))]" by simp
    have "predict_dataset self (Leaf (Ds d0)) batch_size w =
              (Inl (ValueError (mismatch_message self False x_shapes y_shapes)), w1)"
      using p [of False False w1] a by (simp add: predict_dataset_def)
    with w1 show "predict_dataset self (Leaf (Ds d0)) batch_size w =
              (Inl (ValueError (mismatch_message self False x_shapes y_shapes)), w1)
            \<and> w1 = w @ [Print (str (length (top_level (dataset_shape d0))))]" by simp
  qed
  show ?thesis using p e f v g by blast
qed

theorem arity_checked_before_adapters_witness:
  "\<not> (is_Dataset ex_two_arrays \<and> ex_y \<noteq> Leaf PyNone)
   \<and> collect_shapes ex_two_arrays ex_y False = Inr ([[1], [1]], [[5]])
   \<and> length [[1::nat], [1]] \<noteq> length (inputs ex_model)
   \<and> fit ex_model ex_two_arrays ex_y 32 None (Some (1 / 5)) VNone [] =
       (Inl (ValueError ''Expect x to have 1 arrays, but got 2''), ex_model, [])
   \<and> evaluate_dataset ex_model ex_two_arrays ex_y 32 [] =
       (Inl (ValueError ''Expect x to have 1 arrays, but got 2''), [])"
proof -
  have h1: "\<not> (is_Dataset ex_two_arrays \<and> ex_y \<noteq> Leaf PyNone)"
    by (simp add: ex_two_arrays_def)
  have h2: "collect_shapes ex_two_arrays ex_y False = Inr ([[1], [1]], [[5]])"
    by (simp add: collect_shapes_def ex_two_arrays_def ex_y_def)
  have h3: "length [[1::nat], [1]] \<noteq> length (inputs ex_model)
            \<or> (\<not> False \<and> length [[5::nat]] \<noteq> length (outputs ex_model))"
    by (simp add: ex_model_def)
  have m: "mismatch_message ex_model False [[1], [1]] [[5]] = ''Expect x to have 1 arrays, but got 2''"
    by (simp add: mismatch_message_def x_message_def in_val_def ex_model_def digit_def)
  have h3': "length [[1::nat], [1]] \<noteq> length (inputs ex_model)"
    by (simp add: ex_model_def)
  note t = arity_checked_before_adapters [OF h1 h2 h3, where batch_size = 32 and epochs = None
        and validation_split = "Some (1 / 5)" and validation_data = VNone and w = "[]",
        unfolded m]
  have f: "fit ex_model ex_two_arrays ex_y 32 None (Some (1 / 5)) VNone [] =
       (Inl (ValueError ''Expect x to have 1 arrays, but got 2''), ex_model, [])"
    using t by simp
  have e: "evaluate_dataset ex_model ex_two_arrays ex_y 32 [] =
       (Inl (ValueError ''Expect x to have 1 arrays, but got 2''), [])"
    using t by simp
  show ?thesis
    using h1 h2 h3' f e by blast
qed

text \<open>
  Claim C1 as stated fails in two ways. \<^verbatim>\<open>predict\<close> on data that is not a dataset calls
  \<^verbatim>\<open>_adapt\<close> without any check: two arrays for a model with one input raise nothing, and the
  adapter transforms the first array. In \<^verbatim>\<open>fit\<close>, a validation tuple whose x has two
  arrays is rejected only after the adapters have been fitted on the training data.
\<close>

theorem arity_counterexample:
  "predict_dataset ex_model (Tuple [Leaf (Array [1, 2]), Leaf (Array [3, 4])]) 32 [] =
     (Inr (Batch \<lparr>spec = Leaf [], rows = [Leaf 1, Leaf 2]\<rparr> 32), [Transform 0])
   \<and> fit ex_model ex_x ex_y 32 None None (VTuple [ex_two_arrays, Leaf (Array [16])]) [] =
     (Inl (ValueError ''Expect x in validation_data to have 1 arrays, but got 2''),
      ex_model, ex_fit_calls)"
proof -
  have a: "predict_dataset ex_model (Tuple [Leaf (Array [1, 2]), Leaf (Array [3, 4])]) 32 [] =
     (Inr (Batch \<lparr>spec = Leaf [], rows = [Leaf 1, Leaf 2]\<rparr> 32), [Transform 0])"
    by (simp add: predict_dataset_def adapt_def ex_model_def ex_adapter_def to_dataset_def)
  have c: "check_data_format ex_model ex_two_arrays (Leaf (Array [16])) True False =
      Inl (ValueError ''Expect x in validation_data to have 1 arrays, but got 2'')"
    by (simp add: check_data_format_def collect_shapes_def ex_two_arrays_def ex_model_def
        x_message_def in_val_def digit_def)
  have m: "ex_model\<lparr>split_dataset := False\<rparr> = ex_model"
    by (simp add: ex_model_def)
  have b: "fit ex_model ex_x ex_y 32 None None (VTuple [ex_two_arrays, Leaf (Array [16])]) [] =
     (Inl (ValueError ''Expect x in validation_data to have 1 arrays, but got 2''),
      ex_model, ex_fit_calls)"
    using fit_validation_check_fails [OF ex_process_xy, of "VTuple [ex_two_arrays, Leaf (Array [16])]"
        ex_two_arrays "Leaf (Array [16])" _ 32 None None] c
    by (simp add: unpack2_def m)
  show ?thesis using a b by simp
qed

text \<open>
  Claim C8, amended. A dataset x together with a y that is not None is rejected by the
  first test of \<^verbatim>\<open>_check_data_format\<close>, before any adapter is called on that pair. For the
  training pair of \<^verbatim>\<open>fit\<close> and for \<^verbatim>\<open>evaluate\<close> no call has been made at all; for the
  validation pair of \<^verbatim>\<open>fit\<close> the error (with the words \<^verbatim>\<open>in validation_data\<close>) comes after
  the training pair has been adapted.
\<close>

theorem dataset_with_y_rejected:
  assumes "is_Dataset x" and "y \<noteq> Leaf PyNone"
  shows "check_data_format self x y validation predict =
           Inl (ValueError (dataset_y_message validation))
       \<and> process_xy self x y fitting validation predict w =
           (Inl (ValueError (dataset_y_message validation)), w)
       \<and> evaluate_dataset self x y batch_size w =
           (Inl (ValueError (dataset_y_message False)), w)
       \<and> (validation_truthy validation_data \<or> split_truthy validation_split \<longrightarrow>
            fit self x y batch_size epochs validation_split validation_data w =
              (Inl (ValueError (dataset_y_message False)), self, w))
       \<and> (validation_truthy validation_data \<and> validation_xy validation_data = Inr (x, y)
            \<and> process_xy self x0 y0 True False False w = (Inr d, w1) \<longrightarrow>
            fit self x0 y0 batch_size epochs validation_split validation_data w =
              (Inl (ValueError (dataset_y_message True)), self\<lparr>split_dataset := False\<rparr>, w1))"
proof -
  have c: "check_data_format self x y validation predict =
           Inl (ValueError (dataset_y_message validation))" for validation predict
    using assms by (simp add: check_data_format_def)
  have p: "process_xy self x y fitting validation predict w =
           (Inl (ValueError (dataset_y_message validation)), w)" for fitting validation predict w
    by (rule process_xy_check_fails [OF c])
  have e: "evaluate_dataset self x y batch_size w =
           (Inl (ValueError (dataset_y_message False)), w)"
    by (simp add: evaluate_dataset_def p)
  have f: "validation_truthy validation_data \<or> split_truthy validation_split \<longrightarrow>
            fit self x y batch_size epochs validation_split validation_data w =
              (Inl (ValueError (dataset_y_message False)), self, w)"
    using fit_training_check_fails [OF c [of False False], of validation_data validation_split]
    by blast
  have v: "validation_truthy validation_data \<and> validation_xy validation_data = Inr (x, y)
            \<and> process_xy self x0 y0 True False False w = (Inr d, w1) \<longrightarrow>
            fit self x0 y0 batch_size epochs validation_split validation_data w =
              (Inl (ValueError (dataset_y_message True)), self\<lparr>split_dataset := False\<rparr>, w1)"
    using fit_validation_check_fails [of self x0 y0 w d w1 validation_data x y, OF _ _ _ c [of True False]]
    by blast
  show ?thesis using c p e f v by blast
qed

theorem dataset_with_y_rejected_witness:
  "is_Dataset (Leaf (Ds ex_processed)) \<and> ex_y \<noteq> Leaf PyNone
   \<and> fit ex_model (Leaf (Ds ex_processed)) ex_y 32 None (Some (1 / 5)) VNone [] =
       (Inl (ValueError ''Expect y is None when x is tf.data.Dataset.''), ex_model, [])
   \<and> evaluate_dataset ex_model (Leaf (Ds ex_processed)) ex_y 32 [] =
       (Inl (ValueError ''Expect y is None when x is tf.data.Dataset.''), [])"
proof -
  have h1: "is_Dataset (Leaf (Ds ex_processed))" by simp
  have h2: "ex_y \<noteq> Leaf PyNone" by (simp add: ex_y_def)
  show ?thesis
    using h1 h2
      dataset_with_y_rejected [OF h1 h2, where self = ex_model and batch_size = 32 and epochs = None
        and validation_split = "Some (1 / 5)" and validation_data = VNone and w = "[]"]
    by (simp add: dataset_y_message_def in_val_def)
qed

text \<open>
  Claim C8 as stated fails for validation data: a validation tuple of a dataset and a
  non-null y is rejected only after the adapters have been fitted on the training pair.
\<close>

theorem dataset_with_y_counterexample:
  "fit ex_model ex_x ex_y 32 None None (VTuple [Leaf (Ds ex_processed), Leaf (Array [16])]) [] =
     (Inl (ValueError ''Expect y is None when x is tf.data.Dataset in validation_data.''),
      ex_model, ex_fit_calls)
   \<and> ex_fit_calls = [FitTransform 0, ConfigFromAdapter 0, FitTransform 2, ConfigFromAdapter 2]"
proof -
  have c: "check_data_format ex_model (Leaf (Ds ex_processed)) (Leaf (Array [16])) True False =
      Inl (ValueError ''Expect y is None when x is tf.data.Dataset in validation_data.'')"
    by (simp add: check_data_format_def dataset_y_message_def in_val_def)
  have m: "ex_model\<lparr>split_dataset := False\<rparr> = ex_model"
    by (simp add: ex_model_def)
  have "fit ex_model ex_x ex_y 32 None None (VTuple [Leaf (Ds ex_processed), Leaf (Array [16])]) [] =
     (Inl (ValueError ''Expect y is None when x is tf.data.Dataset in validation_data.''),
      ex_model, ex_fit_calls)"
    using fit_validation_check_fails [OF ex_process_xy,
        of "VTuple [Leaf (Ds ex_processed), Leaf (Array [16])]"
        "Leaf (Ds ex_processed)" "Leaf (Array [16])" _ 32 None None] c
    by (simp add: unpack2_def m)
  then show ?thesis by (simp add: ex_fit_calls_def)
qed

lemma split_rows:
  "rows (fst (data_utils_split_dataset d r)) @ rows (snd (data_utils_split_dataset d r)) = rows d
   \<and> spec (fst (data_utils_split_dataset d r)) = spec d
   \<and> spec (snd (data_utils_split_dataset d r)) = spec d
   \<and> length (rows (snd (data_utils_split_dataset d r))) = min (length (rows d)) (split_size (length (rows d)) r)
   \<and> length (rows (fst (data_utils_split_dataset d r))) = length (rows d) - split_size (length (rows d)) r"
  by (auto simp: data_utils_split_dataset_def Let_def)

lemma split_size_le:
  assumes "0 \<le> r" and "r \<le> 1"
  shows "split_size n r \<le> n"
proof -
  have "of_nat n * r \<le> (of_nat n :: rat)"
    using assms by (simp add: mult_left_le)
  then have "\<lfloor>of_nat n * r\<rfloor> \<le> \<lfloor>(of_nat n :: rat)\<rfloor>"
    by (rule floor_mono)
  then show ?thesis
    by (simp add: split_size_def)
qed

text \<open>
  Claim C5. When \<^verbatim>\<open>validation_data\<close> is given (with or without a split fraction) the
  training dataset is returned whole, the validation dataset is the processed
  \<^verbatim>\<open>validation_data\<close>, \<^verbatim>\<open>_split_dataset\<close> is False and \<^verbatim>\<open>fit\<close> passes
  \<^verbatim>\<open>fit_on_val_data=False\<close> to the tuner. When only a split fraction is given, the
  processed dataset is cut in two in its current order, the validation part being the
  trailing rows (\<open>\<lfloor>n * fraction\<rfloor>\<close> of them for a fraction between 0 and 1),
  \<^verbatim>\<open>_split_dataset\<close> is True and \<^verbatim>\<open>fit\<close> passes \<^verbatim>\<open>fit_on_val_data=True\<close>.
\<close>

theorem validation_split_policy:
  "(validation_truthy validation_data
      \<and> process_xy self x y True False False w = (Inr d, w1)
      \<and> validation_xy validation_data = Inr (x_val, y_val)
      \<and> process_xy self x_val y_val False True False w1 = (Inr v, w2) \<longrightarrow>
        prepare_data self x y validation_data validation_split w =
          (Inr (d, VOut v), self\<lparr>split_dataset := False\<rparr>, w2)
      \<and> fit self x y batch_size epochs validation_split validation_data w =
          (Inr (), self\<lparr>split_dataset := False\<rparr>,
           w2 @ [TunerSearch (Batch d batch_size) epochs (Batch v batch_size) False]))
   \<and> (split_truthy (Some r) \<and> process_xy self x y True False False w = (Inr d, w1) \<longrightarrow>
        prepare_data self x y VNone (Some r) w =
          (Inr (fst (data_utils_split_dataset d r), VOut (snd (data_utils_split_dataset d r))),
           self\<lparr>split_dataset := True\<rparr>, w1)
      \<and> fit self x y batch_size epochs (Some r) VNone w =
          (Inr (), self\<lparr>split_dataset := True\<rparr>,
           w1 @ [TunerSearch (Batch (fst (data_utils_split_dataset d r)) batch_size) epochs
                   (Batch (snd (data_utils_split_dataset d r)) batch_size) True])
      \<and> rows (fst (data_utils_split_dataset d r)) @ rows (snd (data_utils_split_dataset d r)) = rows d
      \<and> length (rows (fst (data_utils_split_dataset d r))) =
          length (rows d) - split_size (length (rows d)) r
      \<and> (0 \<le> r \<and> r \<le> 1 \<longrightarrow>
           length (rows (snd (data_utils_split_dataset d r))) = split_size (length (rows d)) r))"
proof -
  have a: "validation_truthy validation_data
      \<and> process_xy self x y True False False w = (Inr d, w1)
      \<and> validation_xy validation_data = Inr (x_val, y_val)
      \<and> process_xy self x_val y_val False True False w1 = (Inr v, w2) \<longrightarrow>
        prepare_data self x y validation_data validation_split w =
          (Inr (d, VOut v), self\<lparr>split_dataset := False\<rparr>, w2)
      \<and> fit self x y batch_size epochs validation_split validation_data w =
          (Inr (), self\<lparr>split_dataset := False\<rparr>,
           w2 @ [TunerSearch (Batch d batch_size) epochs (Batch v batch_size) False])"
  proof (intro impI, elim conjE)
    assume h: "validation_truthy validation_data"
      "process_xy self x y True False False w = (Inr d, w1)"
      "validation_xy validation_data = Inr (x_val, y_val)"
      "process_xy self x_val y_val False True False w1 = (Inr v, w2)"
    have p: "prepare_data self x y validation_data validation_split w =
          (Inr (d, VOut v), self\<lparr>split_dataset := False\<rparr>, w2)"
      using h process_xy_Inr_check [OF h(2)]
      by (simp add: prepare_data_def Let_def)
    then show "prepare_data self x y validation_data validation_split w =
          (Inr (d, VOut v), self\<lparr>split_dataset := False\<rparr>, w2)
      \<and> fit self x y batch_size epochs validation_split validation_data w =
          (Inr (), self\<lparr>split_dataset := False\<rparr>,
           w2 @ [TunerSearch (Batch d batch_size) epochs (Batch v batch_size) False])"
      by (simp add: fit_def)
  qed
  have b: "split_truthy (Some r) \<and> process_xy self x y True False False w = (Inr d, w1) \<longrightarrow>
        prepare_data self x y VNone (Some r) w =
          (Inr (fst (data_utils_split_dataset d r), VOut (snd (data_utils_split_dataset d r))),
           self\<lparr>split_dataset := True\<rparr>, w1)
      \<and> fit self x y batch_size epochs (Some r) VNone w =
          (Inr (), self\<lparr>split_dataset := True\<rparr>,
           w1 @ [TunerSearch (Batch (fst (data_utils_split_dataset d r)) batch_size) epochs
                   (Batch (snd (data_utils_split_dataset d r)) batch_size) True])"
  proof (intro impI, elim conjE)
    assume h: "split_truthy (Some r)" "process_xy self x y True False False w = (Inr d, w1)"
    have p: "prepare_data self x y VNone (Some r) w =
          (Inr (fst (data_utils_split_dataset d r), VOut (snd (data_utils_split_dataset d r))),
           self\<lparr>split_dataset := True\<rparr>, w1)"
      using h process_xy_Inr_check [OF h(2)]
      by (simp add: prepare_data_def Let_def split_beta)
    then show "prepare_data self x y VNone (Some r) w =
          (Inr (fst (data_utils_split_dataset d r), VOut (snd (data_utils_split_dataset d r))),
           self\<lparr>split_dataset := True\<rparr>, w1)
      \<and> fit self x y batch_size epochs (Some r) VNone w =
          (Inr (), self\<lparr>split_dataset := True\<rparr>,
           w1 @ [TunerSearch (Batch (fst (data_utils_split_dataset d r)) batch_size) epochs
                   (Batch (snd (data_utils_split_dataset d r)) batch_size) True])"
      by (simp add: fit_def)
  qed
  have c: "0 \<le> r \<and> r \<le> 1 \<longrightarrow>
           length (rows (snd (data_utils_split_dataset d r))) = split_size (length (rows d)) r"
    using split_rows [of d r] split_size_le [of r "length (rows d)"] by auto
  show ?thesis
    using a b c split_rows [of d r] by blast
qed

theorem validation_split_policy_witness:
  "validation_truthy (VTuple [ex_x, ex_y])
   \<and> process_xy ex_model ex_x ex_y True False False [] = (Inr ex_processed, ex_fit_calls)
   \<and> validation_xy (VTuple [ex_x, ex_y]) = Inr (ex_x, ex_y)
   \<and> process_xy ex_model ex_x ex_y False True False ex_fit_calls =
       (Inr ex_processed, ex_fit_calls @ [Transform 0, Transform 2])
   \<and> fit ex_model ex_x ex_y 32 None (Some (1 / 5)) (VTuple [ex_x, ex_y]) [] =
       (Inr (), ex_model,
        ex_fit_calls @ [Transform 0, Transform 2,
          TunerSearch (Batch ex_processed 32) None (Batch ex_processed 32) False])
   \<and> split_truthy (Some (1 / 5))
   \<and> fit ex_model ex_x ex_y 32 None (Some (1 / 5)) VNone [] =
       (Inr (), ex_model\<lparr>split_dataset := True\<rparr>,
        ex_fit_calls @
        [TunerSearch
          (Batch \<lparr>spec = Tuple [Leaf [], Leaf []],
                  rows = [Tuple [Leaf 1, Leaf 11], Tuple [Leaf 2, Leaf 12], Tuple [Leaf 3, Leaf 13],
                          Tuple [Leaf 4, Leaf 14]]\<rparr> 32)
          None
          (Batch \<lparr>spec = Tuple [Leaf [], Leaf []], rows = [Tuple [Leaf 5, Leaf 15]]\<rparr> 32)
          True])"
proof -
  have h1: "validation_truthy (VTuple [ex_x, ex_y])" by simp
  have h3: "validation_xy (VTuple [ex_x, ex_y]) = Inr (ex_x, ex_y)" by (simp add: unpack2_def)
  have h4: "process_xy ex_model ex_x ex_y False True False ex_fit_calls =
       (Inr ex_processed, ex_fit_calls @ [Transform 0, Transform 2])"
    by (simp add: pipeline_defs ex_defs upt_conv_Cons)
  have m: "ex_model\<lparr>split_dataset := False\<rparr> = ex_model"
    by (simp add: ex_model_def)
  have s: "data_utils_split_dataset ex_processed (1 / 5) =
      (\<lparr>spec = Tuple [Leaf [], Leaf []],
        rows = [Tuple [Leaf 1, Leaf 11], Tuple [Leaf 2, Leaf 12], Tuple [Leaf 3, Leaf 13],
                Tuple [Leaf 4, Leaf 14]]\<rparr>,
       \<lparr>spec = Tuple [Leaf [], Leaf []], rows = [Tuple [Leaf 5, Leaf 15]]\<rparr>)"
    by (simp add: data_utils_split_dataset_def split_size_def ex_processed_def Let_def)
  have h5: "split_truthy (Some (1 / 5))" by simp
  have a: "fit ex_model ex_x ex_y 32 None (Some (1 / 5)) (VTuple [ex_x, ex_y]) [] =
       (Inr (), ex_model,
        ex_fit_calls @ [Transform 0, Transform 2,
          TunerSearch (Batch ex_processed 32) None (Batch ex_processed 32) False])"
    using validation_split_policy [of "VTuple [ex_x, ex_y]" ex_model ex_x ex_y "[]" ex_processed
        ex_fit_calls ex_x ex_y ex_processed "ex_fit_calls @ [Transform 0, Transform 2]"
        "Some (1 / 5)" 32 None]
      h1 ex_process_xy h3 h4
    by (simp add: m)
  have b: "fit ex_model ex_x ex_y 32 None (Some (1 / 5)) VNone [] =
       (Inr (), ex_model\<lparr>split_dataset := True\<rparr>,
        ex_fit_calls @
        [TunerSearch
          (Batch \<lparr>spec = Tuple [Leaf [], Leaf []],
                  rows = [Tuple [Leaf 1, Leaf 11], Tuple [Leaf 2, Leaf 12], Tuple [Leaf 3, Leaf 13],
                          Tuple [Leaf 4, Leaf 14]]\<rparr> 32)
          None
          (Batch \<lparr>spec = Tuple [Leaf [], Leaf []], rows = [Tuple [Leaf 5, Leaf 15]]\<rparr> 32)
          True])"
    using validation_split_policy [where self = ex_model and x = ex_x and y = ex_y and w = "[]"
        and d = ex_processed and ?w1.0 = ex_fit_calls and r = "1 / 5" and batch_size = 32
        and epochs = None]
      h5 ex_process_xy
    by (simp add: s)
  show ?thesis
    using h1 ex_process_xy h3 h4 a h5 b by simp
qed

lemma lambda_first_nonempty:
  "top_level r \<noteq> [] \<Longrightarrow> lambda_first r = Inr (first_of r)"
  by (cases "top_level r") (simp_all add: lambda_first_def first_of_def)

lemma lambda_x_pair:
  "length (top_level r) = 2 \<Longrightarrow> lambda_x r = Inr (first_of r)"
  by (auto simp: lambda_x_def first_of_def length_Suc_conv numeral_2_eq_2)

lemma map_err_Inr:
  "list_all (\<lambda>r. f r = Inr (g r)) rs \<Longrightarrow> map_err f rs = Inr (map g rs)"
  by (induction rs) simp_all

lemma map_err_lambda_first:
  "list_all (\<lambda>r. top_level r \<noteq> []) rs \<Longrightarrow> map_err lambda_first rs = Inr (map first_of rs)"
  by (rule map_err_Inr) (simp add: list_all_iff lambda_first_nonempty)

lemma map_err_lambda_x:
  "list_all (\<lambda>r. length (top_level r) = 2) rs \<Longrightarrow> map_err lambda_x rs = Inr (map first_of rs)"
  by (rule map_err_Inr) (simp add: list_all_iff lambda_x_pair)

text \<open>
  Claim C9, amended. \<^verbatim>\<open>_get_x\<close> looks at the top level of the element structure only.
  With at most one top-level element (nested or not) it takes the first element; else, if
  some top-level element is a tuple, it maps \<^verbatim>\<open>lambda x, y: x\<close>, which gives the x part
  when there are exactly two top-level elements; else, with two top-level elements, one
  declared input and one declared output, it takes the x part; every other dataset is
  returned unchanged. The four cases exclude each other.
\<close>

theorem get_x_cases:
  "snd (get_x self ds w) = w @ [Print (str (length (first_level ds)))]
   \<and> (length (first_level ds) \<le> 1 \<longrightarrow>
        fst (get_x self ds w) = ds_map lambda_first lambda_first ds)
   \<and> (first_level ds = [a] \<and> list_all (\<lambda>r. top_level r \<noteq> []) (rows ds) \<longrightarrow>
        fst (get_x self ds w) = Inr \<lparr>spec = a, rows = map first_of (rows ds)\<rparr>)
   \<and> (1 < length (first_level ds) \<and> list_ex is_Tuple (first_level ds) \<longrightarrow>
        fst (get_x self ds w) = ds_map lambda_x lambda_x ds)
   \<and> (length (first_level ds) = 2 \<and> \<not> list_ex is_Tuple (first_level ds)
        \<and> length (inputs self) = 1 \<and> length (outputs self) = 1 \<longrightarrow>
        fst (get_x self ds w) = ds_map lambda_x lambda_x ds)
   \<and> (first_level ds = [a, b] \<and> list_all (\<lambda>r. length (top_level r) = 2) (rows ds) \<longrightarrow>
        ds_map lambda_x lambda_x ds = Inr \<lparr>spec = a, rows = map first_of (rows ds)\<rparr>)
   \<and> (1 < length (first_level ds) \<and> \<not> list_ex is_Tuple (first_level ds)
        \<and> \<not> (length (first_level ds) = 2 \<and> length (inputs self) = 1 \<and> length (outputs self) = 1) \<longrightarrow>
        fst (get_x self ds w) = Inr ds)"
proof -
  have p: "snd (get_x self ds w) = w @ [Print (str (length (first_level ds)))]"
    by (simp add: get_x_def first_level_def Let_def)
  have c1: "length (first_level ds) \<le> 1 \<longrightarrow>
        fst (get_x self ds w) = ds_map lambda_first lambda_first ds"
    by (simp add: get_x_def first_level_def Let_def)
  have c1': "first_level ds = [a] \<and> list_all (\<lambda>r. top_level r \<noteq> []) (rows ds) \<longrightarrow>
        fst (get_x self ds w) = Inr \<lparr>spec = a, rows = map first_of (rows ds)\<rparr>"
  proof (intro impI, elim conjE)
    assume h: "first_level ds = [a]" "list_all (\<lambda>r. top_level r \<noteq> []) (rows ds)"
    from h(1) have s: "top_level (spec ds) = [a]"
      by (simp add: first_level_def dataset_shape_def)
    have "ds_map lambda_first lambda_first ds = Inr \<lparr>spec = a, rows = map first_of (rows ds)\<rparr>"
      by (simp add: ds_map_def lambda_first_def [of "spec ds"] s map_err_lambda_first [OF h(2)])
    with h(1) c1 show "fst (get_x self ds w) = Inr \<lparr>spec = a, rows = map first_of (rows ds)\<rparr>"
      by simp
  qed
  have c2: "1 < length (first_level ds) \<and> list_ex is_Tuple (first_level ds) \<longrightarrow>
        fst (get_x self ds w) = ds_map lambda_x lambda_x ds"
    by (simp add: get_x_def first_level_def Let_def)
  have c3: "length (first_level ds) = 2 \<and> \<not> list_ex is_Tuple (first_level ds)
        \<and> length (inputs self) = 1 \<and> length (outputs self) = 1 \<longrightarrow>
        fst (get_x self ds w) = ds_map lambda_x lambda_x ds"
    by (simp add: get_x_def first_level_def Let_def)
  have c23: "first_level ds = [a, b] \<and> list_all (\<lambda>r. length (top_level r) = 2) (rows ds) \<longrightarrow>
        ds_map lambda_x lambda_x ds = Inr \<lparr>spec = a, rows = map first_of (rows ds)\<rparr>"
  proof (intro impI, elim conjE)
    assume h: "first_level ds = [a, b]" "list_all (\<lambda>r. length (top_level r) = 2) (rows ds)"
    from h(1) have s: "top_level (spec ds) = [a, b]"
      by (simp add: first_level_def dataset_shape_def)
    show "ds_map lambda_x lambda_x ds = Inr \<lparr>spec = a, rows = map first_of (rows ds)\<rparr>"
      by (simp add: ds_map_def lambda_x_def [of "spec ds"] s map_err_lambda_x [OF h(2)])
  qed
  have c4: "1 < length (first_level ds) \<and> \<not> list_ex is_Tuple (first_level ds)
        \<and> \<not> (length (first_level ds) = 2 \<and> length (inputs self) = 1 \<and> length (outputs self) = 1) \<longrightarrow>
        fst (get_x self ds w) = Inr ds"
    by (auto simp: get_x_def first_level_def Let_def)
  show ?thesis
    using p c1 c1' c2 c3 c23 c4 by blast
qed

theorem get_x_cases_witness:
  "first_level ex_single = [Leaf [2]] \<and> list_all (\<lambda>r. top_level r \<noteq> []) (rows ex_single)
   \<and> fst (get_x ex_model ex_single []) = Inr \<lparr>spec = Leaf [2], rows = [Leaf 1, Leaf 2]\<rparr>
   \<and> length (first_level ex_processed) = 2 \<and> \<not> list_ex is_Tuple (first_level ex_processed)
   \<and> length (inputs ex_model) = 1 \<and> length (outputs ex_model) = 1
   \<and> fst (get_x ex_model ex_processed []) =
       Inr \<lparr>spec = Leaf [], rows = [Leaf 1, Leaf 2, Leaf 3, Leaf 4, Leaf 5]\<rparr>
   \<and> 1 < length (first_level ex_flat3) \<and> \<not> list_ex is_Tuple (first_level ex_flat3)
   \<and> length (first_level ex_flat3) \<noteq> 2
   \<and> fst (get_x ex_model ex_flat3 []) = Inr ex_flat3
   \<and> snd (get_x ex_model ex_flat3 []) = [Print ''3'']"
proof -
  have a1: "first_level ex_single = [Leaf [2]]"
    by (simp add: first_level_def dataset_shape_def ex_single_def)
  have a2: "list_all (\<lambda>r. top_level r \<noteq> []) (rows ex_single)"
    by (simp add: ex_single_def)
  have a3: "fst (get_x ex_model ex_single []) = Inr \<lparr>spec = Leaf [2], rows = [Leaf 1, Leaf 2]\<rparr>"
  proof -
    have r: "map first_of (rows ex_single) = [Leaf 1, Leaf 2]"
      by (simp add: ex_single_def first_of_def)
    from get_x_cases [of ex_model ex_single "[]" "Leaf [2]"] a1 a2
    have "fst (get_x ex_model ex_single []) = Inr \<lparr>spec = Leaf [2], rows = map first_of (rows ex_single)\<rparr>"
      by blast
    with r show ?thesis by simp
  qed
  have b1: "first_level ex_processed = [Leaf [], Leaf []]"
    by (simp add: first_level_def dataset_shape_def ex_processed_def)
  have b2: "list_all (\<lambda>r. length (top_level r) = 2) (rows ex_processed)"
    by (simp add: ex_processed_def)
  have b3: "length (inputs ex_model) = 1 \<and> length (outputs ex_model) = 1"
    by (simp add: ex_model_def)
  have b4: "fst (get_x ex_model ex_processed []) =
       Inr \<lparr>spec = Leaf [], rows = [Leaf 1, Leaf 2, Leaf 3, Leaf 4, Leaf 5]\<rparr>"
  proof -
    have r: "map first_of (rows ex_processed) = [Leaf 1, Leaf 2, Leaf 3, Leaf 4, Leaf 5]"
      by (simp add: ex_processed_def first_of_def)
    have n: "length (first_level ex_processed) = 2 \<and> \<not> list_ex is_Tuple (first_level ex_processed)"
      by (simp add: b1)
    from get_x_cases [of ex_model ex_processed "[]" "Leaf []" "Leaf []"] b1 b2 b3 n
    have "fst (get_x ex_model ex_processed []) =
        Inr \<lparr>spec = Leaf [], rows = map first_of (rows ex_processed)\<rparr>"
      by metis
    with r show ?thesis by simp
  qed
  have c1: "first_level ex_flat3 = [Leaf [], Leaf [], Leaf []]"
    by (simp add: first_level_def dataset_shape_def ex_flat3_def)
  have c2: "fst (get_x ex_model ex_flat3 []) = Inr ex_flat3
      \<and> snd (get_x ex_model ex_flat3 []) = [Print ''3'']"
  proof -
    have n: "1 < length (first_level ex_flat3) \<and> \<not> list_ex is_Tuple (first_level ex_flat3)
        \<and> length (first_level ex_flat3) \<noteq> 2"
      by (simp add: c1)
    have p: "str (length (first_level ex_flat3)) = ''3''"
      by (simp add: c1 digit_def)
    from get_x_cases [of ex_model ex_flat3 "[]"] n
    have "fst (get_x ex_model ex_flat3 []) = Inr ex_flat3
      \<and> snd (get_x ex_model ex_flat3 []) = [] @ [Print (str (length (first_level ex_flat3)))]"
      by blast
    with p show ?thesis by simp
  qed
  show ?thesis
    using a1 a2 a3 b1 b3 b4 c1 c2 by simp
qed

text \<open>
  Claim C9 as stated fails: an element structure with one top-level element that is itself
  a pair has two levels, so it is none of the three shapes of the claim, yet \<^verbatim>\<open>_get_x\<close>
  does not pass the dataset through: it takes the first element. A structure of three
  top-level elements one of which is a tuple is not an (x, y) pair either, and \<^verbatim>\<open>_get_x\<close>
  maps \<^verbatim>\<open>lambda x, y: x\<close> over it, which fails.
\<close>

theorem get_x_counterexample:
  "first_level ex_nested = [Tuple [Leaf [], Leaf []]]
   \<and> list_ex is_Tuple (first_level ex_nested)
   \<and> length (first_level ex_nested) = 1
   \<and> fst (get_x ex_model ex_nested []) =
       Inr \<lparr>spec = Tuple [Leaf [], Leaf []], rows = [Tuple [Leaf 1, Leaf 2]]\<rparr>
   \<and> fst (get_x ex_model ex_nested []) \<noteq> Inr ex_nested
   \<and> first_level ex_triple = [Leaf [], Tuple [Leaf [], Leaf []], Leaf []]
   \<and> length (first_level ex_triple) = 3
   \<and> fst (get_x ex_model ex_triple []) = Inl (TypeError ''lambda'')"
  by (simp add: get_x_def first_level_def dataset_shape_def ex_nested_def ex_triple_def
      ds_map_def lambda_first_def lambda_x_def Let_def)

subsection \<open>Further properties\<close>

lemma adapt_loop_eq:
  "adapt_loop zs fitting (adapted, w) =
     (adapted @ map (slot_dataset fitting) zs, w @ concat (map (slot_calls fitting) zs))"
proof (induction zs arbitrary: adapted w)
  case Nil
  then show ?case by simp
next
  case (Cons z zs)
  obtain source hm adapter where z: "z = (source, hm, adapter)"
    by (cases z) auto
  show ?case
    using Cons.IH
    by (cases fitting) (simp_all add: z slot_dataset_def slot_calls_def)
qed

lemma map_err_length: "map_err f xs = Inr ys \<Longrightarrow> length ys = length xs"
proof (induction xs arbitrary: ys)
  case Nil
  then show ?case by simp
next
  case (Cons x xs)
  then show ?case by (auto split: sum.splits)
qed

text \<open>
  \<^verbatim>\<open>_adapt\<close> pairs the flattened sources with the hyper-models and the adapters, up to the
  shortest of the three, and adapts the slots in order: when fitting it calls
  \<^verbatim>\<open>fit_transform\<close> and then \<^verbatim>\<open>config_from_adapter\<close> for each slot, otherwise
  \<^verbatim>\<open>transform\<close>. One adapted slot is returned as it is, several are zipped, and with no
  slot the zip of nothing fails.
\<close>

theorem adapt_per_slot:
  "snd (adapt sources fitting hms adapters w) =
     w @ concat (map (slot_calls fitting) (zip (flatten sources) (zip hms adapters)))
   \<and> (zip (flatten sources) (zip hms adapters) = [z] \<longrightarrow>
        fst (adapt sources fitting hms adapters w) = Inr (slot_dataset fitting z))
   \<and> (1 < length (zip (flatten sources) (zip hms adapters)) \<longrightarrow>
        fst (adapt sources fitting hms adapters w) =
          ds_zip (map (slot_dataset fitting) (zip (flatten sources) (zip hms adapters))))
   \<and> (zip (flatten sources) (zip hms adapters) = [] \<longrightarrow>
        fst (adapt sources fitting hms adapters w) = Inl (OpError ''zip''))"
proof -
  let ?zs = "zip (flatten sources) (zip hms adapters)"
  have a: "snd (adapt sources fitting hms adapters w) = w @ concat (map (slot_calls fitting) ?zs)"
    by (simp add: adapt_def adapt_loop_eq split: list.splits)
  have b: "?zs = [z] \<longrightarrow> fst (adapt sources fitting hms adapters w) = Inr (slot_dataset fitting z)"
    by (simp add: adapt_def adapt_loop_eq)
  have c: "1 < length ?zs \<longrightarrow>
        fst (adapt sources fitting hms adapters w) = ds_zip (map (slot_dataset fitting) ?zs)"
  proof
    assume "1 < length ?zs"
    then obtain z1 z2 zs where "?zs = z1 # z2 # zs"
      by (cases ?zs; cases "tl ?zs") auto
    then show "fst (adapt sources fitting hms adapters w) = ds_zip (map (slot_dataset fitting) ?zs)"
      by (simp add: adapt_def adapt_loop_eq)
  qed
  have d: "?zs = [] \<longrightarrow> fst (adapt sources fitting hms adapters w) = Inl (OpError ''zip'')"
    by (simp add: adapt_def adapt_loop_eq ds_zip_def)
  show ?thesis using a b c d by blast
qed

theorem adapt_per_slot_witness:
  "zip (flatten ex_x) (zip (map HmNode (inputs ex_model)) (input_adapters ex_model)) =
     [(Array [1, 2, 3, 4, 5], HmNode ex_image, ex_adapter 0)]
   \<and> adapt ex_x True (map HmNode (inputs ex_model)) (input_adapters ex_model) [] =
       (Inr \<lparr>spec = Leaf [], rows = [Leaf 1, Leaf 2, Leaf 3, Leaf 4, Leaf 5]\<rparr>,
        [FitTransform 0, ConfigFromAdapter 0])"
proof -
  have z: "zip (flatten ex_x) (zip (map HmNode (inputs ex_model)) (input_adapters ex_model)) =
     [(Array [1, 2, 3, 4, 5], HmNode ex_image, ex_adapter 0)]"
    by (simp add: ex_x_def ex_model_def)
  note t = adapt_per_slot [of ex_x True "map HmNode (inputs ex_model)" "input_adapters ex_model" "[]"
      "(Array [1, 2, 3, 4, 5], HmNode ex_image, ex_adapter 0)"]
  from t z have f: "fst (adapt ex_x True (map HmNode (inputs ex_model)) (input_adapters ex_model) []) =
      Inr (slot_dataset True (Array [1, 2, 3, 4, 5], HmNode ex_image, ex_adapter 0))"
    by blast
  from t have g: "snd (adapt ex_x True (map HmNode (inputs ex_model)) (input_adapters ex_model) []) =
      [] @ concat (map (slot_calls True)
        (zip (flatten ex_x) (zip (map HmNode (inputs ex_model)) (input_adapters ex_model))))"
    by blast
  have "adapt ex_x True (map HmNode (inputs ex_model)) (input_adapters ex_model) [] =
       (Inr \<lparr>spec = Leaf [], rows = [Leaf 1, Leaf 2, Leaf 3, Leaf 4, Leaf 5]\<rparr>,
        [FitTransform 0, ConfigFromAdapter 0])"
    by (simp add: prod_eq_iff f g z slot_dataset_def slot_calls_def ex_adapter_def to_dataset_def)
  with z show ?thesis by simp
qed

text \<open>
  \<^verbatim>\<open>predict\<close> on data that is not a dataset goes to \<^verbatim>\<open>_adapt\<close> directly: there is no
  arity check, the sources beyond the declared inputs are dropped by the zip, and with at
  least one source, one input and one adapter nothing is raised.
\<close>

theorem predict_raw_unchecked:
  "the_Dataset x = [] \<longrightarrow>
     predict_dataset self x batch_size w =
       (map_sum id (\<lambda>d. Batch d batch_size)
          (fst (adapt x False (map HmNode (inputs self)) (input_adapters self) w)),
        w @ concat (map (slot_calls False)
              (zip (flatten x) (zip (map HmNode (inputs self)) (input_adapters self)))))
   \<and> (the_Dataset x = [] \<and> flatten x \<noteq> [] \<and> inputs self \<noteq> [] \<and> input_adapters self \<noteq> [] \<longrightarrow>
        \<not> isl (fst (predict_dataset self x batch_size w)))"
proof -
  let ?zs = "zip (flatten x) (zip (map HmNode (inputs self)) (input_adapters self))"
  let ?r = "adapt x False (map HmNode (inputs self)) (input_adapters self) w"
  have s: "snd ?r = w @ concat (map (slot_calls False) ?zs)"
    by (simp add: adapt_def adapt_loop_eq split: list.splits)
  have a: "the_Dataset x = [] \<longrightarrow>
     predict_dataset self x batch_size w =
       (map_sum id (\<lambda>d. Batch d batch_size) (fst ?r), w @ concat (map (slot_calls False) ?zs))"
  proof
    assume h: "the_Dataset x = []"
    obtain r1 w1 where r: "?r = (r1, w1)" by (cases ?r)
    with s have "w1 = w @ concat (map (slot_calls False) ?zs)" by simp
    with r h show "predict_dataset self x batch_size w =
       (map_sum id (\<lambda>d. Batch d batch_size) (fst ?r), w @ concat (map (slot_calls False) ?zs))"
      by (cases r1) (simp_all add: predict_dataset_def)
  qed
  have b: "the_Dataset x = [] \<and> flatten x \<noteq> [] \<and> inputs self \<noteq> [] \<and> input_adapters self \<noteq> [] \<longrightarrow>
        \<not> isl (fst (predict_dataset self x batch_size w))"
  proof (intro impI, elim conjE)
    assume h: "the_Dataset x = []" "flatten x \<noteq> []" "inputs self \<noteq> []" "input_adapters self \<noteq> []"
    from h(2,3,4) obtain z zs where z: "?zs = z # zs"
      by (cases "flatten x"; cases "inputs self"; cases "input_adapters self") auto
    have "\<not> isl (fst ?r)"
      by (cases zs) (simp_all add: adapt_def adapt_loop_eq z ds_zip_def)
    with a h(1) show "\<not> isl (fst (predict_dataset self x batch_size w))"
      by (cases "fst ?r") simp_all
  qed
  show ?thesis using a b by blast
qed

theorem predict_raw_unchecked_witness:
  "the_Dataset (Tuple [Leaf (Array [1, 2]), Leaf (Array [3, 4])]) = []
   \<and> flatten (Tuple [Leaf (Array [1, 2]), Leaf (Array [3, 4])]) \<noteq> []
   \<and> inputs ex_model \<noteq> [] \<and> input_adapters ex_model \<noteq> []
   \<and> length (flatten (Tuple [Leaf (Array [1, 2]), Leaf (Array [3, 4])])) = 2
   \<and> length (inputs ex_model) = 1
   \<and> \<not> isl (fst (predict_dataset ex_model (Tuple [Leaf (Array [1, 2]), Leaf (Array [3, 4])]) 32 []))"
proof -
  have h1: "the_Dataset (Tuple [Leaf (Array [1, 2]), Leaf (Array [3, 4])]) = []" by simp
  have h2: "flatten (Tuple [Leaf (Array [1, 2]), Leaf (Array [3, 4])]) \<noteq> []" by simp
  have h3: "inputs ex_model \<noteq> [] \<and> input_adapters ex_model \<noteq> []" by (simp add: ex_model_def)
  have h4: "length (flatten (Tuple [Leaf (Array [1, 2]), Leaf (Array [3, 4])])) = 2" by simp
  have h5: "length (inputs ex_model) = 1" by (simp add: ex_model_def)
  from predict_raw_unchecked [of "Tuple [Leaf (Array [1, 2]), Leaf (Array [3, 4])]" ex_model 32 "[]"]
    h1 h2 h3
  have "\<not> isl (fst (predict_dataset ex_model (Tuple [Leaf (Array [1, 2]), Leaf (Array [3, 4])]) 32 []))"
    by blast
  with h1 h2 h3 h4 h5 show ?thesis by blast
qed

text \<open>
  Inferred mode with a recognised input: the assembled graph has one output node per
  declared head and the declared inputs as its inputs.
\<close>

theorem inferred_graph_counts:
  "middle_nodes ins \<noteq> [] \<longrightarrow>
     (case assemble ins (map OHead hs) w of
        (Inl e, w') \<Rightarrow> False
      | (Inr g, w') \<Rightarrow> length (g_outputs g) = length hs \<and> g_inputs g = ins)"
  by (simp add: assemble_heads Graph_def head_nodes_def)

theorem inferred_graph_counts_witness:
  "middle_nodes [ex_image, ex_text] \<noteq> []
   \<and> (case assemble [ex_image, ex_text] (map OHead [ex_head, ex_head]) [] of
        (Inl e, w') \<Rightarrow> False
      | (Inr g, w') \<Rightarrow> length (g_outputs g) = 2 \<and> g_inputs g = [ex_image, ex_text])"
proof -
  have m: "middle_nodes [ex_image, ex_text] \<noteq> []"
    by (simp add: middle_nodes_def List.map_filter_def ex_image_def ex_text_def)
  show ?thesis
    using m inferred_graph_counts [of "[ex_image, ex_text]" "[ex_head, ex_head]" "[]"]
    by (simp split: prod.splits sum.splits)
qed

text \<open>
  The counts \<^verbatim>\<open>_check_data_format\<close> compares: for data that is not a dataset, the numbers
  of flattened leaves of x and of y; for a dataset, the numbers of flattened shapes of the
  element structure (of its two parts outside predict mode).
\<close>

theorem checked_counts:
  "(the_Dataset x = [] \<and> collect_shapes x y False = Inr (x_shapes, y_shapes) \<longrightarrow>
      length x_shapes = length (flatten x) \<and> length y_shapes = length (flatten y))
   \<and> (the_Dataset x = [] \<and> collect_shapes x y True = Inr (x_shapes, y_shapes) \<longrightarrow>
      length x_shapes = length (flatten x))
   \<and> (collect_shapes (Leaf (Ds d)) y True = Inr (x_shapes, y_shapes) \<longrightarrow>
      length x_shapes = length (flatten (spec d)))
   \<and> (top_level (spec d) = [a, b] \<longrightarrow>
      collect_shapes (Leaf (Ds d)) y False = Inr (flatten a, flatten b))"
proof -
  have a: "the_Dataset x = [] \<and> collect_shapes x y False = Inr (x_shapes, y_shapes) \<longrightarrow>
      length x_shapes = length (flatten x) \<and> length y_shapes = length (flatten y)"
    by (auto simp: collect_shapes_def split: sum.splits dest: map_err_length)
  have b: "the_Dataset x = [] \<and> collect_shapes x y True = Inr (x_shapes, y_shapes) \<longrightarrow>
      length x_shapes = length (flatten x)"
    by (auto simp: collect_shapes_def split: sum.splits dest: map_err_length)
  have c: "collect_shapes (Leaf (Ds d)) y True = Inr (x_shapes, y_shapes) \<longrightarrow>
      length x_shapes = length (flatten (spec d))"
    by (auto simp: collect_shapes_def dataset_shape_def)
  have e: "top_level (spec d) = [a, b] \<longrightarrow>
      collect_shapes (Leaf (Ds d)) y False = Inr (flatten a, flatten b)"
    by (simp add: collect_shapes_def dataset_shape_def unpack2_def)
  show ?thesis using a b c e by blast
qed

theorem checked_counts_witness:
  "the_Dataset ex_two_arrays = []
   \<and> collect_shapes ex_two_arrays ex_y False = Inr ([[1], [1]], [[5]])
   \<and> length [[1::nat], [1]] = length (flatten ex_two_arrays)
   \<and> top_level (spec ex_processed) = [Leaf [], Leaf []]
   \<and> collect_shapes (Leaf (Ds ex_processed)) (Leaf PyNone) False = Inr ([[]], [[]])"
proof -
  have h1: "the_Dataset ex_two_arrays = []" by (simp add: ex_two_arrays_def)
  have h2: "collect_shapes ex_two_arrays ex_y False = Inr ([[1], [1]], [[5]])"
    by (simp add: collect_shapes_def ex_two_arrays_def ex_y_def)
  have h3: "top_level (spec ex_processed) = [Leaf [], Leaf []]" by (simp add: ex_processed_def)
  from checked_counts [of ex_two_arrays ex_y "[[1], [1]]" "[[5]]"] h1 h2
  have c1: "length [[1::nat], [1]] = length (flatten ex_two_arrays)" by blast
  from checked_counts [where d = ex_processed and a = "Leaf []" and b = "Leaf []" and y = "Leaf PyNone"] h3
  have c2: "collect_shapes (Leaf (Ds ex_processed)) (Leaf PyNone) False = Inr (flatten (Leaf []), flatten (Leaf []))"
    by blast
  then have c3: "collect_shapes (Leaf (Ds ex_processed)) (Leaf PyNone) False = Inr ([[]], [[]])"
    by simp
  show ?thesis using h1 h2 c1 h3 c3 by blast
qed

end
